theory Spec2Isabelle
  imports Complex_Main "HOL-Library.AList"
begin

section \<open>Python values, exceptions and dictionaries\<close>

text \<open>
  The simulation is Python. An exception is a value of \<open>exc\<close>; a function that can raise
  returns \<open>exc + 'a\<close> with \<open>Inl\<close> for the exception. A \<open>dict\<close> whose iteration order
  matters is an association list in insertion order; reading a missing key raises
  \<open>KeyError\<close>. Dollar amounts are Python integers (\<open>int\<close>).
\<close>

datatype exc =
    KeyError string
  | TypeError string
  | ValueError string
  | UnboundLocalError string
  | Exception string
  | InitializationError string
  | RetryError
  | Errors "string list"

type_synonym 'v pydict = "(string \<times> 'v) list"

text \<open>The values of an output row's columns; a row is a dict from column to value.\<close>

datatype scalar = IntV int | FloatV rat | StrV string

type_synonym row = "scalar pydict"

text \<open>Python's truth value of a scalar, as \<open>if total:\<close> reads it.\<close>

fun truthy :: "scalar \<Rightarrow> bool" where
  "truthy (IntV n) = (n \<noteq> 0)"
| "truthy (FloatV q) = (q \<noteq> 0)"
| "truthy (StrV s) = (s \<noteq> [])"

text \<open>An argument typed \<open>Union[Iterable[dict], dict]\<close>: one row, or a list of rows.\<close>

datatype 'r rows_arg = Row 'r | Rows "'r list"

text \<open>\<open>if isinstance(rows, dict): rows = [rows]\<close>.\<close>

definition as_list :: "'r rows_arg \<Rightarrow> 'r list" where
  "as_list rows = (case rows of Row r \<Rightarrow> [r] | Rows rs \<Rightarrow> rs)"

definition getitem :: "'v pydict \<Rightarrow> string \<Rightarrow> exc + 'v" where
  "getitem d k = (case map_of d k of None \<Rightarrow> Inl (KeyError k) | Some v \<Rightarrow> Inr v)"

text \<open>\<open>d[k] += v\<close>: reads \<open>d[k]\<close> (KeyError when absent) and stores the sum in place.\<close>

definition iadd_item :: "int pydict \<Rightarrow> string \<Rightarrow> int \<Rightarrow> exc + int pydict" where
  "iadd_item d k v =
     (case map_of d k of
        None \<Rightarrow> Inl (KeyError k)
      | Some x \<Rightarrow> Inr (AList.update k (x + v) d))"

section \<open>generate_losses.py: exposure sampling under aggregation limits\<close>

definition total_agg_limit :: int where "total_agg_limit = 200000000"
definition state_agg_limit :: int where "state_agg_limit = 80000000"
definition county_agg_limit :: int where "county_agg_limit = 30000000"
definition zip_agg_limit :: int where "zip_agg_limit = 5000000"

text \<open>
  \<open>loss_dictionary\<close>, \<open>exposure_dictionary\<close> and \<open>premium_dictionary\<close> are dictionaries
  with the keys \<open>total\<close>, \<open>state\<close>, \<open>county\<close>, \<open>zip\<close>, in that order; the last three
  hold one dictionary each, from geography name to amount.
\<close>

record geo_dict =
  d_total :: int
  d_state :: "int pydict"
  d_county :: "int pydict"
  d_zip :: "int pydict"

text \<open>A sampled property (one document of the houses collection).\<close>

record 'c property =
  p_state :: string
  p_county :: string
  p_zip_code :: string
  p_limit :: int
  p_location :: 'c

text \<open>The geojson Feature appended to \<open>exposures\<close>.\<close>

record 'c feature =
  f_state :: string
  f_county :: string
  f_zip_code :: string
  f_point :: 'c

text \<open>The variables the sampling loops of \<open>run_losses\<close> update.\<close>

record 'c sampling =
  exposure_dictionary :: geo_dict
  premium_dictionary :: geo_dict
  exposures :: "'c feature list"

text \<open>What one pass through a loop body does to the loop: \<open>break\<close>, or go on.\<close>

datatype 'a step = Break | Next 'a

text \<open>
  The test at the head of the inner loop (lines 329-332). Python's \<open>or\<close> evaluates the
  state lookup only when the first comparison is false.
\<close>

definition ceiling_reached :: "geo_dict \<Rightarrow> string \<Rightarrow> exc + bool" where
  "ceiling_reached ed st =
     (if d_total ed > total_agg_limit - 15000 then Inr True
      else (case getitem (d_state ed) st of
              Inl e \<Rightarrow> Inl e
            | Inr v \<Rightarrow> Inr (v > state_agg_limit - 15000)))"

text \<open>
  The four \<open>+=\<close> statements on one dictionary (lines 343-346, 347-350). An exception
  leaves \<open>run_losses\<close>, whose dictionaries are then dropped, so the model keeps no
  half-updated dictionary.
\<close>

definition add_levels :: "geo_dict \<Rightarrow> string \<Rightarrow> string \<Rightarrow> string \<Rightarrow> int \<Rightarrow> exc + geo_dict" where
  "add_levels d st co zp amount =
     (case iadd_item (d_state d) st amount of Inl e \<Rightarrow> Inl e | Inr s' \<Rightarrow>
       (case iadd_item (d_county d) co amount of Inl e \<Rightarrow> Inl e | Inr c' \<Rightarrow>
         (case iadd_item (d_zip d) zp amount of Inl e \<Rightarrow> Inl e | Inr z' \<Rightarrow>
            Inr \<lparr>d_total = d_total d + amount, d_state = s', d_county = c', d_zip = z'\<rparr>)))"

text \<open>The body of \<open>for curr_prop in curr_props\<close> (lines 329-360).\<close>

definition sample_prop ::
  "int pydict \<Rightarrow> 'c sampling \<Rightarrow> 'c property \<Rightarrow> exc + 'c sampling step" where
  "sample_prop zip_to_prem s curr_prop =
     (case ceiling_reached (exposure_dictionary s) (p_state curr_prop) of
        Inl e \<Rightarrow> Inl e
      | Inr True \<Rightarrow> Inr Break
      | Inr False \<Rightarrow>
         (let curr_state = p_state curr_prop;
              curr_county = p_county curr_prop;
              curr_zip = p_zip_code curr_prop;
              curr_limit = p_limit curr_prop
          in (case getitem zip_to_prem curr_zip of Inl e \<Rightarrow> Inl e | Inr rate \<Rightarrow>
             (let premium = max 100 rate
              in (case add_levels (exposure_dictionary s) curr_state curr_county curr_zip curr_limit of
                   Inl e \<Rightarrow> Inl e
                 | Inr ed \<Rightarrow>
                    (case add_levels (premium_dictionary s) curr_state curr_county curr_zip premium of
                       Inl e \<Rightarrow> Inl e
                     | Inr pd \<Rightarrow>
                        Inr (Next \<lparr>exposure_dictionary = ed, premium_dictionary = pd,
                                   exposures = exposures s @
                                     [\<lparr>f_state = curr_state, f_county = curr_county,
                                       f_zip_code = curr_zip, f_point = p_location curr_prop\<rparr>]\<rparr>)))))))"

text \<open>The inner loop over the properties sampled for one state.\<close>

fun sample_props :: "int pydict \<Rightarrow> 'c sampling \<Rightarrow> 'c property list \<Rightarrow> exc + 'c sampling" where
  "sample_props zip_to_prem s [] = Inr s"
| "sample_props zip_to_prem s (curr_prop # rest) =
     (case sample_prop zip_to_prem s curr_prop of
        Inl e \<Rightarrow> Inl e
      | Inr Break \<Rightarrow> Inr s
      | Inr (Next s') \<Rightarrow> sample_props zip_to_prem s' rest)"

text \<open>
  The outer loop over the (shuffled) states (lines 310-364). \<open>curr_props\<close> stands for the
  cursor the database returns for a state: the random sample is the database's.
\<close>

fun sample_states ::
  "int pydict \<Rightarrow> (string \<Rightarrow> 'c property list) \<Rightarrow> 'c sampling \<Rightarrow> string list \<Rightarrow> exc + 'c sampling" where
  "sample_states zip_to_prem curr_props s [] = Inr s"
| "sample_states zip_to_prem curr_props s (loss_state # rest) =
     (case sample_props zip_to_prem s (curr_props loss_state) of
        Inl e \<Rightarrow> Inl e
      | Inr s' \<Rightarrow>
         if d_total (exposure_dictionary s') > total_agg_limit - 15000 then Inr s'
         else sample_states zip_to_prem curr_props s' rest)"


section \<open>generate_losses.py: generating the storms\<close>

text \<open>
  Lines 417-426. \<open>storm.generate_polygon()\<close> returns \<open>False\<close> when the random centre
  falls outside the country and a polygon otherwise; \<open>candidates\<close> lists the results of
  its successive calls (\<open>None\<close> for \<open>False\<close>). The loop has no bound of its own: when
  the candidates run out before it stops, the model returns \<open>None\<close>.
\<close>

fun generate_storms :: "int \<Rightarrow> int \<Rightarrow> 'p list \<Rightarrow> 'p option list \<Rightarrow> 'p list option" where
  "generate_storms limit num_storms storms candidates =
     (if num_storms \<le> limit then
        (case candidates of
           [] \<Rightarrow> None
         | sample_storm # rest \<Rightarrow>
            (case sample_storm of
               None \<Rightarrow> generate_storms limit num_storms storms rest
             | Some polygon \<Rightarrow> generate_storms limit (num_storms + 1) (storms @ [polygon]) rest))
      else Some storms)"

section \<open>gcp/bigquery.py: streaming inserts with retries\<close>

definition INSERT_ROW_RETRY_MAX_RETRIES :: nat where
  "INSERT_ROW_RETRY_MAX_RETRIES = 5"

text \<open>
  The Bigquery client is the outside world: \<open>respond n\<close> is what the body of
  \<open>Bigquery.insert_rows\<close> (\<open>client.get_table\<close>, then \<open>client.insert_rows\<close>) does on its
  \<open>n\<close>-th invocation, counted from 0 over the life of the client: it raises, or returns
  the sequence of errors (empty when the insert succeeded). \<open>calls\<close> counts the
  invocations made so far.

  \<open>insert_rows\<close> is that body under its \<open>tenacity.retry\<close> decorator: \<open>retry_if_result\<close>
  retries when the result is truthy (a non-empty sequence), an exception is not retried,
  \<open>stop_after_attempt\<close> stops at attempt number 5, and \<open>retry_error_callback\<close> then
  returns the result of the last attempt. The waits between attempts take time only.
\<close>

function insert_rows :: "(nat \<Rightarrow> exc + string list) \<Rightarrow> nat \<Rightarrow> nat \<Rightarrow> (exc + string list) \<times> nat" where
  "insert_rows respond calls attempt_number =
     (case respond calls of
        Inl e \<Rightarrow> (Inl e, calls + 1)
      | Inr errors \<Rightarrow>
         if errors = [] then (Inr errors, calls + 1)
         else if attempt_number \<ge> INSERT_ROW_RETRY_MAX_RETRIES then (Inr errors, calls + 1)
         else insert_rows respond (calls + 1) (attempt_number + 1))"
  by pat_completeness auto
termination
  by (relation "measure (\<lambda>(respond, calls, attempt_number). INSERT_ROW_RETRY_MAX_RETRIES - attempt_number)")
     auto

record 'r bigquery_insert_stream =
  batch_size :: nat
  batch :: "'r list"
  total :: nat

text \<open>
  \<open>BigqueryInsertStream.flush\<close> (lines 239-252). The result holds the exception raised,
  if any, the stream as the call leaves it, and the client's invocation count.
\<close>

definition bq_flush ::
  "(nat \<Rightarrow> exc + string list) \<Rightarrow> 'r bigquery_insert_stream \<Rightarrow> nat
     \<Rightarrow> exc option \<times> 'r bigquery_insert_stream \<times> nat" where
  "bq_flush respond self calls =
     (if batch self \<noteq> [] then
        (case insert_rows respond calls 1 of
           (Inl e, calls') \<Rightarrow> (Some e, self, calls')
         | (Inr errors, calls') \<Rightarrow>
            if errors \<noteq> [] then (Some (Errors errors), self, calls')
            else (None, self\<lparr>total := total self + length (batch self), batch := []\<rparr>, calls'))
      else (None, self, calls))"

text \<open>\<open>BigqueryInsertStream.insert\<close> (lines 229-237); \<open>rows\<close> is a list, or one row.\<close>

definition bq_insert ::
  "(nat \<Rightarrow> exc + string list) \<Rightarrow> 'r rows_arg \<Rightarrow> 'r bigquery_insert_stream \<Rightarrow> nat
     \<Rightarrow> exc option \<times> 'r bigquery_insert_stream \<times> nat" where
  "bq_insert respond rows self calls =
     (let self' = (case rows of
                     Rows rs \<Rightarrow> self\<lparr>batch := batch self @ rs\<rparr>
                   | Row r \<Rightarrow> self\<lparr>batch := batch self @ [r]\<rparr>)
      in if length (batch self') \<ge> batch_size self' then bq_flush respond self' calls
         else (None, self', calls))"


section \<open>db/v2/geo_types.py and the column names\<close>

definition GEO_TYPE_UNKNOWN :: int where "GEO_TYPE_UNKNOWN = - 1"
definition GEO_TYPE_STATE_VALUE :: int where "GEO_TYPE_STATE_VALUE = 1"
definition GEO_TYPE_COUNTY_VALUE :: int where "GEO_TYPE_COUNTY_VALUE = 2"
definition GEO_TYPE_ZIP_VALUE :: int where "GEO_TYPE_ZIP_VALUE = 3"
definition GEO_TYPE_TOTAL_VALUE :: int where "GEO_TYPE_TOTAL_VALUE = 4"

definition GEO_TYPE_MAPPINGS :: "int pydict" where
  "GEO_TYPE_MAPPINGS =
     [(''total'', GEO_TYPE_TOTAL_VALUE), (''state'', GEO_TYPE_STATE_VALUE),
      (''county'', GEO_TYPE_COUNTY_VALUE), (''zip'', GEO_TYPE_ZIP_VALUE),
      (''_unknown_geo_type_'', GEO_TYPE_UNKNOWN)]"

text \<open>\<open>str.strip()\<close> and \<open>str.lower()\<close>, on ASCII text.\<close>

definition is_space :: "char \<Rightarrow> bool" where
  "is_space c =
     (c \<in> set [CHR '' '', CHR 0x09, CHR 0x0A, CHR 0x0B, CHR 0x0C, CHR 0x0D,
                 CHR 0x1C, CHR 0x1D, CHR 0x1E, CHR 0x1F])"

definition strip :: "string \<Rightarrow> string" where
  "strip s = rev (dropWhile is_space (rev (dropWhile is_space s)))"

definition lower_char :: "char \<Rightarrow> char" where
  "lower_char c =
     (case map_of (zip ''ABCDEFGHIJKLMNOPQRSTUVWXYZ'' ''abcdefghijklmnopqrstuvwxyz'') c of
        None \<Rightarrow> c
      | Some l \<Rightarrow> l)"

definition lower :: "string \<Rightarrow> string" where
  "lower s = map lower_char s"

definition str_to_int :: "string \<Rightarrow> int" where
  "str_to_int geo_type =
     (case map_of GEO_TYPE_MAPPINGS (lower (strip geo_type)) of
        None \<Rightarrow> GEO_TYPE_UNKNOWN
      | Some v \<Rightarrow> v)"

text \<open>\<open>build_geo_type_row\<close>, the inner function of \<open>run_losses\<close> (lines 154-162).\<close>

definition build_geo_type_row :: "int \<Rightarrow> int \<Rightarrow> string \<Rightarrow> string \<Rightarrow> scalar \<Rightarrow> row" where
  "build_geo_type_row runtime_timestamp sim_id geo_type_str geography total_value =
     [(''run_timestamp'', IntV runtime_timestamp),
      (''sim_id'', IntV sim_id),
      (''geo_type'', IntV (str_to_int geo_type_str)),
      (''geography'', StrV geography),
      (''total'', total_value)]"

definition INVALID_OUTPUT_COLUMN_CHARACTERS :: "char list" where
  "INVALID_OUTPUT_COLUMN_CHARACTERS = [CHR '' '', CHR ''.'', CHR ''-'']"

definition DEFAULT_COLUMN_REPLACEMENT_CHAR :: string where
  "DEFAULT_COLUMN_REPLACEMENT_CHAR = ''_''"

definition str_replace :: "char \<Rightarrow> string \<Rightarrow> string \<Rightarrow> string" where
  "str_replace invalid_char replacement s =
     concat (map (\<lambda>c. if c = invalid_char then replacement else [c]) s)"

definition format_column_name_for_output :: "string \<Rightarrow> string option \<Rightarrow> string \<Rightarrow> string" where
  "format_column_name_for_output column_name prefix replace_invalid_with =
     (let column_name' =
            foldl (\<lambda>name invalid_char. str_replace invalid_char replace_invalid_with name)
              column_name INVALID_OUTPUT_COLUMN_CHARACTERS
      in case prefix of
           None \<Rightarrow> column_name'
         | Some pre \<Rightarrow> if pre = [] then column_name' else pre @ ''_'' @ column_name')"

section \<open>simulation_output.py: the fanout and BufferedOutputStream\<close>

definition OUTPUT_EXPOSURES :: string where "OUTPUT_EXPOSURES = ''exposures''"
definition OUTPUT_PREMIUMS :: string where "OUTPUT_PREMIUMS = ''premiums''"
definition OUTPUT_LOSSES :: string where "OUTPUT_LOSSES = ''losses''"
definition OUTPUT_NLR :: string where "OUTPUT_NLR = ''nlr''"

definition ALL_OUTPUTS :: "string list" where
  "ALL_OUTPUTS = [OUTPUT_EXPOSURES, OUTPUT_PREMIUMS, OUTPUT_LOSSES, OUTPUT_NLR]"

text \<open>
  An \<open>OutputFanout\<close> is abstract; what the stream sees of it is \<open>send\<close>. The model keeps
  the calls \<open>send\<close> received, in order (\<open>sent\<close>), and lets a call raise: \<open>outputs name rows\<close>
  is the exception that \<open>send(name, rows)\<close> raises, if any.
\<close>

type_synonym 'r fanout = "string \<Rightarrow> 'r rows_arg \<Rightarrow> exc option"

type_synonym 'r sends = "(string \<times> 'r rows_arg) list"

definition send :: "'r fanout \<Rightarrow> string \<Rightarrow> 'r rows_arg \<Rightarrow> 'r sends \<Rightarrow> exc option \<times> 'r sends" where
  "send outputs output_name rows sent = (outputs output_name rows, sent @ [(output_name, rows)])"

definition DEFAULT_PER_OUTPUT_MAX_ROWS :: int where "DEFAULT_PER_OUTPUT_MAX_ROWS = 500"
definition DEFAULT_TOTAL_BUFFER_MAX_ROWS :: int where "DEFAULT_TOTAL_BUFFER_MAX_ROWS = 5000"

text \<open>
  \<open>buffer\<close> is a \<open>defaultdict(list)\<close>: it lists the output names in the order in which
  they were first added to since the buffer was last initialised.
\<close>

record 'r buffered_output_stream =
  per_output_max_rows :: int
  total_buffer_max_rows :: int
  buffer :: "(string \<times> 'r list) list"
  total_in_buffer :: int

definition init_buffer :: "'r buffered_output_stream \<Rightarrow> 'r buffered_output_stream" where
  "init_buffer self = self\<lparr>buffer := [], total_in_buffer := 0\<rparr>"

definition BufferedOutputStream :: "int \<Rightarrow> int \<Rightarrow> 'r buffered_output_stream" where
  "BufferedOutputStream per_output_max total_buffer_max =
     \<lparr>per_output_max_rows = per_output_max, total_buffer_max_rows = total_buffer_max,
      buffer = [], total_in_buffer = 0\<rparr>"

text \<open>The loop of \<open>flush\<close> over \<open>self.buffer.items()\<close> (lines 271-274).\<close>

fun flush_items :: "'r fanout \<Rightarrow> (string \<times> 'r list) list \<Rightarrow> 'r sends \<Rightarrow> exc option \<times> 'r sends" where
  "flush_items outputs [] sent = (None, sent)"
| "flush_items outputs ((output_name, rows) # rest) sent =
     (if rows \<noteq> [] then
        (case send outputs output_name (Rows rows) sent of
           (Some e, sent') \<Rightarrow> (Some e, sent')
         | (None, sent') \<Rightarrow> flush_items outputs rest sent')
      else flush_items outputs rest sent)"

definition stream_flush ::
  "'r fanout \<Rightarrow> 'r buffered_output_stream \<Rightarrow> 'r sends
     \<Rightarrow> exc option \<times> 'r buffered_output_stream \<times> 'r sends" where
  "stream_flush outputs self sent =
     (case flush_items outputs (buffer self) sent of
        (Some e, sent') \<Rightarrow> (Some e, self, sent')
      | (None, sent') \<Rightarrow> (None, init_buffer self, sent'))"

text \<open>
  What one pass of \<open>flush\<close> over a buffer is to send, for the statements below: the rows
  of each output name that has any, as one call, in the buffer's order.
\<close>

definition sends_of_buffer :: "(string \<times> 'r list) list \<Rightarrow> 'r sends" where
  "sends_of_buffer b = map (\<lambda>(output_name, rows). (output_name, Rows rows)) (filter (\<lambda>(output_name, rows). rows \<noteq> []) b)"

text \<open>\<open>self.buffer[output_name].extend(rows)\<close>: a new name goes to the end.\<close>

definition buffer_extend :: "(string \<times> 'r list) list \<Rightarrow> string \<Rightarrow> 'r list \<Rightarrow> (string \<times> 'r list) list" where
  "buffer_extend b output_name rows =
     (case map_of b output_name of
        None \<Rightarrow> b @ [(output_name, rows)]
      | Some old \<Rightarrow> AList.update output_name (old @ rows) b)"

definition buffered :: "string \<Rightarrow> 'r list \<Rightarrow> 'r buffered_output_stream \<Rightarrow> 'r buffered_output_stream" where
  "buffered output_name rows self =
     self\<lparr>buffer := buffer_extend (buffer self) output_name rows,
          total_in_buffer := total_in_buffer self + int (length rows)\<rparr>"

definition buffer_len :: "(string \<times> 'r list) list \<Rightarrow> string \<Rightarrow> int" where
  "buffer_len b output_name = (case map_of b output_name of None \<Rightarrow> 0 | Some rows \<Rightarrow> int (length rows))"

definition stream_add ::
  "'r fanout \<Rightarrow> string \<Rightarrow> 'r rows_arg \<Rightarrow> 'r buffered_output_stream \<Rightarrow> 'r sends
     \<Rightarrow> exc option \<times> 'r buffered_output_stream \<times> 'r sends" where
  "stream_add outputs output_name rows self sent =
     (let rows' = as_list rows;
          self' = buffered output_name rows' self
      in if buffer_len (buffer self') output_name \<ge> per_output_max_rows self'
            \<or> total_in_buffer self' \<ge> total_buffer_max_rows self'
         then stream_flush outputs self' sent
         else (None, self', sent))"

text \<open>
  The statements of a \<open>with BufferedOutputStream(...) as output_stream:\<close> body, as far as
  the stream is concerned: a call of \<open>add\<close>, or anything else that raises.
\<close>

datatype 'r stmt = Add string "'r rows_arg" | Raise exc

fun run_body ::
  "'r fanout \<Rightarrow> 'r stmt list \<Rightarrow> 'r buffered_output_stream \<Rightarrow> 'r sends
     \<Rightarrow> exc option \<times> 'r buffered_output_stream \<times> 'r sends" where
  "run_body outputs [] self sent = (None, self, sent)"
| "run_body outputs (Raise e # rest) self sent = (Some e, self, sent)"
| "run_body outputs (Add output_name rows # rest) self sent =
     (case stream_add outputs output_name rows self sent of
        (Some e, self', sent') \<Rightarrow> (Some e, self', sent')
      | (None, self', sent') \<Rightarrow> run_body outputs rest self' sent')"

text \<open>
  The \<open>with\<close> statement: \<open>__enter__\<close> initialises the buffer, the body runs, and
  \<open>__exit__\<close> flushes whether or not the body raised. \<open>__exit__\<close> returns \<open>None\<close>, so an
  exception of the body goes on after it; an exception of \<open>__exit__\<close> itself replaces it.
\<close>

definition with_stream ::
  "'r fanout \<Rightarrow> 'r buffered_output_stream \<Rightarrow> 'r stmt list \<Rightarrow> 'r sends
     \<Rightarrow> exc option \<times> 'r buffered_output_stream \<times> 'r sends" where
  "with_stream outputs self body sent =
     (case run_body outputs body (init_buffer self) sent of
        (raised, self', sent') \<Rightarrow>
          (case stream_flush outputs self' sent' of
             (Some e, self'', sent'') \<Rightarrow> (Some e, self'', sent'')
           | (None, self'', sent'') \<Rightarrow> (raised, self'', sent'')))"


text \<open>
  For the statements below. \<open>buffered_rows\<close> are the rows that wait in a buffer for an
  output name, \<open>rows_to\<close> the rows that the fanout was sent for an output name, in order
  and over all calls, and \<open>rows_added\<close> the rows that the statements of a body add for an
  output name before the body raises, if it does.
\<close>

definition buffered_rows :: "string \<Rightarrow> (string \<times> 'r list) list \<Rightarrow> 'r list" where
  "buffered_rows output_name b = (case map_of b output_name of None \<Rightarrow> [] | Some rows \<Rightarrow> rows)"

definition rows_to :: "string \<Rightarrow> 'r sends \<Rightarrow> 'r list" where
  "rows_to output_name sent =
     concat (map (\<lambda>(name, rows). if name = output_name then as_list rows else []) sent)"

fun rows_added :: "string \<Rightarrow> 'r stmt list \<Rightarrow> 'r list" where
  "rows_added output_name [] = []"
| "rows_added output_name (Raise e # rest) = []"
| "rows_added output_name (Add name rows # rest) =
     (if name = output_name then as_list rows else []) @ rows_added output_name rest"

section \<open>generate_losses.py: writing the rows of a simulation\<close>

definition FLAT_ROW_OUTPUT_SCHEMA_VERSION :: int where "FLAT_ROW_OUTPUT_SCHEMA_VERSION = 1"
definition GEO_TYPE_ROW_OUTPUT_SCHEMA_VERSION :: int where "GEO_TYPE_ROW_OUTPUT_SCHEMA_VERSION = 2"

definition DEFAULT_OUTPUT_SCHEMA_VERSION :: int where
  "DEFAULT_OUTPUT_SCHEMA_VERSION = GEO_TYPE_ROW_OUTPUT_SCHEMA_VERSION"

text \<open>\<open>output_schema_version or DEFAULT_OUTPUT_SCHEMA_VERSION\<close> (line 167).\<close>

definition schema_version :: "int option \<Rightarrow> int" where
  "schema_version output_schema_version =
     (case output_schema_version of
        None \<Rightarrow> DEFAULT_OUTPUT_SCHEMA_VERSION
      | Some v \<Rightarrow> if v = 0 then DEFAULT_OUTPUT_SCHEMA_VERSION else v)"

text \<open>
  \<open>generate_loss_ratio\<close> (lines 118-121). \<open>round(loss / premium, 4)\<close> is floating-point
  arithmetic, which the model leaves open: \<open>round4 loss premium\<close> stands for its value.
\<close>

definition generate_loss_ratio :: "(int \<Rightarrow> int \<Rightarrow> rat) \<Rightarrow> int \<Rightarrow> int \<Rightarrow> scalar" where
  "generate_loss_ratio round4 premium loss =
     (if premium \<noteq> 0 then FloatV (round4 loss premium) else IntV 0)"

text \<open>
  The dictionaries are iterated with \<open>.items()\<close>, in the order of their keys: \<open>total\<close>
  first, then the three levels that \<open>levels\<close> lists.
\<close>

definition levels :: "geo_dict \<Rightarrow> (string \<times> int pydict) list" where
  "levels d = [(''state'', d_state d), (''county'', d_county d), (''zip'', d_zip d)]"

text \<open>
  What a \<open>with\<close> body has done so far: the statements it ran on the stream (\<open>ops\<close>) and
  the two flat rows it fills.
\<close>

record emission =
  ops :: "row stmt list"
  first_row :: row
  second_row :: row

definition add_row :: "string \<Rightarrow> row \<Rightarrow> emission \<Rightarrow> emission" where
  "add_row output_name r st = st\<lparr>ops := ops st @ [Add output_name (Row r)]\<rparr>"

text \<open>
  Exposures and premiums (lines 378-415); \<open>first_row\<close> is \<open>exposure_row\<close> and
  \<open>second_row\<close> is \<open>premium_row\<close>. First the inner loop over the geographies of a level.
\<close>

fun exposure_geographies ::
  "int \<Rightarrow> int \<Rightarrow> int \<Rightarrow> string \<Rightarrow> geo_dict \<Rightarrow> (string \<times> int) list \<Rightarrow> emission
     \<Rightarrow> exc option \<times> emission" where
  "exposure_geographies version runtime_timestamp sim_id geo_type premium_dict [] st = (None, st)"
| "exposure_geographies version runtime_timestamp sim_id geo_type premium_dict
       ((geography, total_value) # rest) st =
     (let column_name = format_column_name_for_output geography None DEFAULT_COLUMN_REPLACEMENT_CHAR
      in (case getitem (levels premium_dict) geo_type of
            Inl e \<Rightarrow> (Some e, st)
          | Inr premium_level \<Rightarrow>
             (case getitem premium_level geography of
                Inl e \<Rightarrow> (Some e, st)
              | Inr premium_total \<Rightarrow>
                 (let st1 = st\<lparr>first_row := AList.update column_name (IntV total_value) (first_row st),
                                second_row := AList.update column_name (IntV premium_total) (second_row st)\<rparr>;
                      st2 = (if version = GEO_TYPE_ROW_OUTPUT_SCHEMA_VERSION \<and> total_value \<noteq> 0
                             then add_row OUTPUT_EXPOSURES
                                    (build_geo_type_row runtime_timestamp sim_id geo_type geography
                                       (IntV total_value)) st1
                             else st1);
                      st3 = (if version = GEO_TYPE_ROW_OUTPUT_SCHEMA_VERSION \<and> premium_total \<noteq> 0
                             then add_row OUTPUT_PREMIUMS
                                    (build_geo_type_row runtime_timestamp sim_id geo_type geography
                                       (IntV premium_total)) st2
                             else st2)
                  in exposure_geographies version runtime_timestamp sim_id geo_type
                       premium_dict rest st3))))"

text \<open>The \<open>else\<close> branch of the outer loop, for the three levels in turn.\<close>

fun exposure_levels ::
  "int \<Rightarrow> int \<Rightarrow> int \<Rightarrow> geo_dict \<Rightarrow> (string \<times> int pydict) list \<Rightarrow> emission
     \<Rightarrow> exc option \<times> emission" where
  "exposure_levels version runtime_timestamp sim_id premium_dict [] st = (None, st)"
| "exposure_levels version runtime_timestamp sim_id premium_dict ((geo_type, value) # rest) st =
     (case exposure_geographies version runtime_timestamp sim_id geo_type premium_dict value st of
        (Some e, st') \<Rightarrow> (Some e, st')
      | (None, st') \<Rightarrow> exposure_levels version runtime_timestamp sim_id premium_dict rest st')"

text \<open>The branch \<open>geo_type == 'total'\<close> (lines 384-395).\<close>

definition exposure_total :: "int \<Rightarrow> int \<Rightarrow> int \<Rightarrow> int \<Rightarrow> emission \<Rightarrow> emission" where
  "exposure_total version runtime_timestamp sim_id value st =
     (let st1 = st\<lparr>first_row := AList.update ''total'' (IntV value) (first_row st),
                    second_row := AList.update ''total'' (IntV value) (second_row st)\<rparr>;
          total_value = value;
          premium_total = value;
          st2 = (if version = GEO_TYPE_ROW_OUTPUT_SCHEMA_VERSION \<and> total_value \<noteq> 0
                 then add_row OUTPUT_EXPOSURES
                        (build_geo_type_row runtime_timestamp sim_id ''total'' ''total'' (IntV total_value)) st1
                 else st1)
      in if version = GEO_TYPE_ROW_OUTPUT_SCHEMA_VERSION \<and> premium_total \<noteq> 0
         then add_row OUTPUT_EXPOSURES
                (build_geo_type_row runtime_timestamp sim_id ''total'' ''total'' (IntV premium_total)) st2
         else st2)"

text \<open>The whole body of the first \<open>with\<close> block: its statements, and how it ends.\<close>

definition exposure_body ::
  "int \<Rightarrow> int \<Rightarrow> int \<Rightarrow> geo_dict \<Rightarrow> geo_dict \<Rightarrow> exc option \<times> emission" where
  "exposure_body version runtime_timestamp sim_id exposure_dict premium_dict =
     exposure_levels version runtime_timestamp sim_id premium_dict (levels exposure_dict)
       (exposure_total version runtime_timestamp sim_id (d_total exposure_dict)
          \<lparr>ops = [], first_row = [(''sim_id'', IntV sim_id)],
           second_row = [(''sim_id'', IntV sim_id)]\<rparr>)"

text \<open>
  For the statements below: a row of the geo-type schema whose \<open>geo_type\<close> is the code
  of \<open>total\<close>.
\<close>

definition total_row :: "row \<Rightarrow> bool" where
  "total_row r = (map_of r ''geo_type'' = Some (IntV GEO_TYPE_TOTAL_VALUE))"

text \<open>The statements of a body as the \<open>with\<close> statement runs them.\<close>

definition statements :: "exc option \<times> emission \<Rightarrow> row stmt list" where
  "statements r = (case r of (None, st) \<Rightarrow> ops st | (Some e, st) \<Rightarrow> ops st @ [Raise e])"

text \<open>The two flat rows go out after the block, under schema version 1 (lines 413-415).\<close>

definition send_flat_rows ::
  "row fanout \<Rightarrow> int \<Rightarrow> string \<Rightarrow> string \<Rightarrow> emission \<Rightarrow> row sends \<Rightarrow> exc option \<times> row sends" where
  "send_flat_rows outputs version first_output second_output st sent =
     (if version = FLAT_ROW_OUTPUT_SCHEMA_VERSION then
        (case send outputs first_output (Row (first_row st)) sent of
           (Some e, sent') \<Rightarrow> (Some e, sent')
         | (None, sent') \<Rightarrow> send outputs second_output (Row (second_row st)) sent')
      else (None, sent))"

definition write_exposures_and_premiums ::
  "row fanout \<Rightarrow> int \<Rightarrow> int \<Rightarrow> int \<Rightarrow> geo_dict \<Rightarrow> geo_dict \<Rightarrow> row sends \<Rightarrow> exc option \<times> row sends" where
  "write_exposures_and_premiums outputs version runtime_timestamp sim_id exposure_dict premium_dict sent =
     (let body = exposure_body version runtime_timestamp sim_id exposure_dict premium_dict
      in (case with_stream outputs
                 (BufferedOutputStream DEFAULT_PER_OUTPUT_MAX_ROWS DEFAULT_TOTAL_BUFFER_MAX_ROWS)
                 (statements body) sent of
            (Some e, self, sent') \<Rightarrow> (Some e, sent')
          | (None, self, sent') \<Rightarrow>
              send_flat_rows outputs version OUTPUT_EXPOSURES OUTPUT_PREMIUMS (snd body) sent'))"

text \<open>
  Losses and net loss ratios (lines 445-481); \<open>first_row\<close> is \<open>loss_row\<close> and \<open>second_row\<close>
  is \<open>nlr_row\<close>. \<open>nlr_value\<close> is a local variable of \<open>run_losses\<close>, assigned in the inner
  loop only: \<open>None\<close> is the variable before its first assignment, and reading it then
  raises \<open>UnboundLocalError\<close>.
\<close>

record loss_emission = emission +
  nlr_value :: "scalar option"

definition add_loss_row :: "string \<Rightarrow> row \<Rightarrow> loss_emission \<Rightarrow> loss_emission" where
  "add_loss_row output_name r st = st\<lparr>ops := ops st @ [Add output_name (Row r)]\<rparr>"

fun loss_geographies ::
  "(int \<Rightarrow> int \<Rightarrow> rat) \<Rightarrow> int \<Rightarrow> int \<Rightarrow> int \<Rightarrow> string \<Rightarrow> geo_dict \<Rightarrow> (string \<times> int) list
     \<Rightarrow> loss_emission \<Rightarrow> exc option \<times> loss_emission" where
  "loss_geographies round4 version runtime_timestamp sim_id geo_type premium_dict [] st = (None, st)"
| "loss_geographies round4 version runtime_timestamp sim_id geo_type premium_dict
       ((geography, total_value) # rest) st =
     (let column_name = format_column_name_for_output geography None DEFAULT_COLUMN_REPLACEMENT_CHAR
      in (case getitem (levels premium_dict) geo_type of
            Inl e \<Rightarrow> (Some e, st)
          | Inr premium_level \<Rightarrow>
             (case getitem premium_level geography of
                Inl e \<Rightarrow> (Some e, st)
              | Inr premium \<Rightarrow>
                 (let ratio = generate_loss_ratio round4 premium total_value;
                      st1 = st\<lparr>first_row := AList.update column_name (IntV total_value) (first_row st),
                                second_row := AList.update column_name ratio (second_row st),
                                nlr_value := Some ratio\<rparr>;
                      st2 = (if version = GEO_TYPE_ROW_OUTPUT_SCHEMA_VERSION \<and> total_value \<noteq> 0
                             then add_loss_row OUTPUT_LOSSES
                                    (build_geo_type_row runtime_timestamp sim_id geo_type geography
                                       (IntV total_value)) st1
                             else st1);
                      st3 = (if version = GEO_TYPE_ROW_OUTPUT_SCHEMA_VERSION \<and> truthy ratio
                             then add_loss_row OUTPUT_NLR
                                    (build_geo_type_row runtime_timestamp sim_id geo_type geography ratio) st2
                             else st2)
                  in loss_geographies round4 version runtime_timestamp sim_id geo_type
                       premium_dict rest st3))))"

fun loss_levels ::
  "(int \<Rightarrow> int \<Rightarrow> rat) \<Rightarrow> int \<Rightarrow> int \<Rightarrow> int \<Rightarrow> geo_dict \<Rightarrow> (string \<times> int pydict) list
     \<Rightarrow> loss_emission \<Rightarrow> exc option \<times> loss_emission" where
  "loss_levels round4 version runtime_timestamp sim_id premium_dict [] st = (None, st)"
| "loss_levels round4 version runtime_timestamp sim_id premium_dict ((geo_type, value) # rest) st =
     (case loss_geographies round4 version runtime_timestamp sim_id geo_type premium_dict value st of
        (Some e, st') \<Rightarrow> (Some e, st')
      | (None, st') \<Rightarrow> loss_levels round4 version runtime_timestamp sim_id premium_dict rest st')"

text \<open>The branch \<open>geo_type == 'total'\<close> (lines 450-461).\<close>

definition loss_total ::
  "(int \<Rightarrow> int \<Rightarrow> rat) \<Rightarrow> int \<Rightarrow> int \<Rightarrow> int \<Rightarrow> geo_dict \<Rightarrow> int \<Rightarrow> loss_emission
     \<Rightarrow> exc option \<times> loss_emission" where
  "loss_total round4 version runtime_timestamp sim_id premium_dict value st =
     (let ratio = generate_loss_ratio round4 (d_total premium_dict) value;
          st1 = st\<lparr>first_row := AList.update ''total'' (IntV value) (first_row st),
                    second_row := AList.update ''total'' ratio (second_row st)\<rparr>
      in if version = GEO_TYPE_ROW_OUTPUT_SCHEMA_VERSION then
           (let st2 = (if value \<noteq> 0
                       then add_loss_row OUTPUT_LOSSES
                              (build_geo_type_row runtime_timestamp sim_id ''total'' ''total'' (IntV value)) st1
                       else st1)
            in (case nlr_value st2 of
                  None \<Rightarrow> (Some (UnboundLocalError ''nlr_value''), st2)
                | Some v \<Rightarrow>
                   if truthy v
                   then (None, add_loss_row OUTPUT_NLR
                                 (build_geo_type_row runtime_timestamp sim_id ''total'' ''total''
                                    (generate_loss_ratio round4 (d_total premium_dict) value)) st2)
                   else (None, st2)))
         else (None, st1))"

definition loss_body ::
  "(int \<Rightarrow> int \<Rightarrow> rat) \<Rightarrow> int \<Rightarrow> int \<Rightarrow> int \<Rightarrow> geo_dict \<Rightarrow> geo_dict \<Rightarrow> exc option \<times> loss_emission" where
  "loss_body round4 version runtime_timestamp sim_id loss_dict premium_dict =
     (case loss_total round4 version runtime_timestamp sim_id premium_dict (d_total loss_dict)
             \<lparr>ops = [], first_row = [(''SimId'', IntV sim_id)],
              second_row = [(''SimId'', IntV sim_id)], nlr_value = None\<rparr> of
        (Some e, st) \<Rightarrow> (Some e, st)
      | (None, st) \<Rightarrow>
          loss_levels round4 version runtime_timestamp sim_id premium_dict (levels loss_dict) st)"

definition loss_statements :: "exc option \<times> loss_emission \<Rightarrow> row stmt list" where
  "loss_statements r = (case r of (None, st) \<Rightarrow> ops st | (Some e, st) \<Rightarrow> ops st @ [Raise e])"

definition write_losses_and_nlr ::
  "row fanout \<Rightarrow> (int \<Rightarrow> int \<Rightarrow> rat) \<Rightarrow> int \<Rightarrow> int \<Rightarrow> int \<Rightarrow> geo_dict \<Rightarrow> geo_dict \<Rightarrow> row sends
     \<Rightarrow> exc option \<times> row sends" where
  "write_losses_and_nlr outputs round4 version runtime_timestamp sim_id loss_dict premium_dict sent =
     (let body = loss_body round4 version runtime_timestamp sim_id loss_dict premium_dict
      in (case with_stream outputs
                 (BufferedOutputStream DEFAULT_PER_OUTPUT_MAX_ROWS DEFAULT_TOTAL_BUFFER_MAX_ROWS)
                 (loss_statements body) sent of
            (Some e, self, sent') \<Rightarrow> (Some e, sent')
          | (None, self, sent') \<Rightarrow>
              send_flat_rows outputs version OUTPUT_LOSSES OUTPUT_NLR
                (emission.truncate (snd body)) sent'))"


section \<open>simulation_output.py: the row writers\<close>

text \<open>
  A call binds each parameter of \<open>__init__\<close> to an argument, or to nothing: \<open>None\<close> is a
  parameter the call gives no argument for. A parameter with a default then takes it; one
  without makes the call raise \<open>TypeError\<close> before the body runs.
\<close>

definition missing_argument :: exc where
  "missing_argument = TypeError ''__init__() missing 1 required positional argument''"

text \<open>
  \<open>file_writers\<close> maps a file path to the \<open>csv.DictWriter\<close> opened for it: its field
  names, and the lines written through it so far, each a list of cells.
\<close>

record csv_file =
  fieldnames :: "string list"
  written :: "scalar list list"

record local_csv_writer =
  output_dir :: string
  storm_type :: string
  file_writers :: "string \<rightharpoonup> csv_file"
  overwrite :: bool

definition endswith_slash :: "string \<Rightarrow> bool" where
  "endswith_slash s = (s \<noteq> [] \<and> last s = CHR ''/'')"

definition format_filepath :: "local_csv_writer \<Rightarrow> string \<Rightarrow> string" where
  "format_filepath self output_name =
     output_dir self @ (if \<not> endswith_slash (output_dir self) then ''/'' else [])
       @ storm_type self @ ''_'' @ output_name @ ''.csv''"

text \<open>\<open>path_exists\<close> is \<open>os.path.exists\<close> on the file system as the writer finds it.\<close>

fun enforce_output_files_do_not_exist ::
  "(string \<Rightarrow> bool) \<Rightarrow> local_csv_writer \<Rightarrow> string list \<Rightarrow> exc option" where
  "enforce_output_files_do_not_exist path_exists self [] = None"
| "enforce_output_files_do_not_exist path_exists self (output_name # rest) =
     (let filepath = format_filepath self output_name
      in if path_exists filepath
         then Some (InitializationError (''File exists and overwrite is not enabled: '' @ filepath))
         else enforce_output_files_do_not_exist path_exists self rest)"

text \<open>\<open>LocalCsvWriter.__init__(self, output_dir, storm_type, overwrite=False)\<close>.\<close>

definition LocalCsvWriter ::
  "(string \<Rightarrow> bool) \<Rightarrow> string option \<Rightarrow> string option \<Rightarrow> bool option \<Rightarrow> exc + local_csv_writer" where
  "LocalCsvWriter path_exists output_dir_arg storm_type_arg overwrite_arg =
     (case (output_dir_arg, storm_type_arg) of
        (Some dir, Some storm) \<Rightarrow>
          (let self = \<lparr>output_dir = dir, storm_type = storm, file_writers = Map.empty,
                       overwrite = (case overwrite_arg of None \<Rightarrow> False | Some b \<Rightarrow> b)\<rparr>
           in if \<not> overwrite self then
                (case enforce_output_files_do_not_exist path_exists self ALL_OUTPUTS of
                   Some e \<Rightarrow> Inl e
                 | None \<Rightarrow> Inr self)
              else Inr self)
      | _ \<Rightarrow> Inl missing_argument)"






text \<open>\<open>BigqueryRowWriter.__init__(self, project_id, storm_type, dataset=DEFAULT_DATASET)\<close>.\<close>

definition DEFAULT_DATASET :: string where "DEFAULT_DATASET = ''simulations_v2''"

record bigquery_row_writer =
  bq_project_id :: string
  bq_storm_type :: string
  bq_dataset :: string
  bq_client_created :: bool

definition BigqueryRowWriter ::
  "string option \<Rightarrow> string option \<Rightarrow> string option \<Rightarrow> exc + bigquery_row_writer" where
  "BigqueryRowWriter project_id_arg storm_type_arg dataset_arg =
     (case (project_id_arg, storm_type_arg) of
        (Some project, Some storm) \<Rightarrow>
          Inr \<lparr>bq_project_id = project, bq_storm_type = storm,
               bq_dataset = (case dataset_arg of None \<Rightarrow> DEFAULT_DATASET | Some d \<Rightarrow> d),
               bq_client_created = False\<rparr>
      | _ \<Rightarrow> Inl missing_argument)"

section \<open>generate_losses.py and main.py: the drivers\<close>

text \<open>
  \<open>setup_bigquery_writer\<close> and \<open>setup_csv_writer\<close> (lines 521-532). \<open>project_id\<close> comes
  from the environment and may be \<open>None\<close>.
\<close>

definition setup_bigquery_writer :: "string option \<Rightarrow> string \<Rightarrow> exc + bigquery_row_writer" where
  "setup_bigquery_writer project_id dataset =
     (if project_id = None \<or> project_id = Some []
      then Inl (Exception ''--project_id is REQUIRED when using the --output_bigquery flag'')
      else BigqueryRowWriter project_id None (Some dataset))"

definition setup_csv_writer :: "(string \<Rightarrow> bool) \<Rightarrow> string \<Rightarrow> bool \<Rightarrow> exc + local_csv_writer" where
  "setup_csv_writer path_exists csv_output_dir csv_overwrite =
     LocalCsvWriter path_exists (Some csv_output_dir) None (Some csv_overwrite)"

definition SIMULATION_MAX_RETRIES :: nat where "SIMULATION_MAX_RETRIES = 3"

text \<open>
  \<open>run_losses\<close> under its \<open>tenacity.retry\<close> decorator. \<open>attempt sim_id n\<close> is how the
  \<open>n\<close>-th run of the function body for \<open>sim_id\<close> ends: with an exception, or by returning
  (\<open>None\<close>; the function then returns \<open>sim_id\<close>). Any exception is retried, and after
  attempt number 3 the decorator raises \<open>RetryError\<close>.
\<close>

function run_losses :: "(nat \<Rightarrow> nat \<Rightarrow> exc option) \<Rightarrow> nat \<Rightarrow> nat \<Rightarrow> exc + nat" where
  "run_losses attempt sim_id attempt_number =
     (case attempt sim_id attempt_number of
        None \<Rightarrow> Inr sim_id
      | Some e \<Rightarrow>
          if attempt_number \<ge> SIMULATION_MAX_RETRIES then Inl RetryError
          else run_losses attempt sim_id (attempt_number + 1))"
  by pat_completeness auto
termination
  by (relation "measure (\<lambda>(attempt, sim_id, attempt_number). SIMULATION_MAX_RETRIES - attempt_number)")
     auto

text \<open>
  The single-process branch of \<open>main\<close> (lines 698-708): \<open>list(map(run_losses, sims))\<close>.
  \<open>started\<close> lists the simulations \<open>run_losses\<close> was called for and \<open>returned\<close> the values
  it returned, in order.
\<close>

record simulations =
  started :: "nat list"
  returned :: "nat list"

fun map_run_losses ::
  "(nat \<Rightarrow> nat \<Rightarrow> exc option) \<Rightarrow> nat list \<Rightarrow> simulations \<Rightarrow> exc option \<times> simulations" where
  "map_run_losses attempt [] so_far = (None, so_far)"
| "map_run_losses attempt (sim_id # rest) so_far =
     (case run_losses attempt sim_id 1 of
        Inl e \<Rightarrow> (Some e, so_far\<lparr>started := started so_far @ [sim_id]\<rparr>)
      | Inr result \<Rightarrow>
          map_run_losses attempt rest
            (so_far\<lparr>started := started so_far @ [sim_id], returned := returned so_far @ [result]\<rparr>))"

definition main_single_process :: "(nat \<Rightarrow> nat \<Rightarrow> exc option) \<Rightarrow> nat \<Rightarrow> exc option \<times> simulations" where
  "main_single_process attempt num_simulations =
     map_run_losses attempt [0..<num_simulations] \<lparr>started = [], returned = []\<rparr>"

text \<open>
  \<open>_start_simulation\<close> of main.py (lines 106-156), which runs one simulation for a
  Pub/Sub event. The result is the exception that leaves the function, if any, and the
  messages it logs at level error or warning.
\<close>

definition STORM_TYPE_HAIL :: string where "STORM_TYPE_HAIL = ''hail''"

definition SUPPORTED_STORM_TYPES :: "string list" where
  "SUPPORTED_STORM_TYPES = [STORM_TYPE_HAIL]"

definition start_simulation ::
  "(nat \<Rightarrow> nat \<Rightarrow> exc option) \<Rightarrow> string option \<Rightarrow> string \<Rightarrow> string \<Rightarrow> nat \<Rightarrow> bool
     \<Rightarrow> exc option \<times> string list" where
  "start_simulation attempt PROJECT_ID BIGQUERY_OUTPUT_DATASET storm sim_id output_bigquery =
     (if storm \<notin> set SUPPORTED_STORM_TYPES
      then (None, [''Unsupported storm type '' @ storm @ ''. Ignoring request''])
      else
        (case (if output_bigquery
               then (case setup_bigquery_writer PROJECT_ID BIGQUERY_OUTPUT_DATASET of
                       Inl e \<Rightarrow> Inl e
                     | Inr writer \<Rightarrow> Inr [])
               else Inr [''Running simulation without output.'']) of
           Inl e \<Rightarrow> (Some e, [])
         | Inr logged \<Rightarrow>
             (case run_losses attempt sim_id 1 of
                Inl e \<Rightarrow> (None, logged @ [''Simulation failed.'', ''Exception from simulation''])
              | Inr result \<Rightarrow> (None, logged))))"

section \<open>generate_losses.py: a simulation from sampling to its rows\<close>

text \<open>
  Lines 432-442: every property inside a storm's polygon adds the payout to the loss
  dictionary, at each of the four levels.
\<close>

definition payout :: int where "payout = 10000"

fun add_losses :: "geo_dict \<Rightarrow> 'c feature list \<Rightarrow> exc + geo_dict" where
  "add_losses loss_dict [] = Inr loss_dict"
| "add_losses loss_dict (damaged_home # rest) =
     (case add_levels loss_dict (f_state damaged_home) (f_county damaged_home)
             (f_zip_code damaged_home) payout of
        Inl e \<Rightarrow> Inl e
      | Inr loss_dict' \<Rightarrow> add_losses loss_dict' rest)"

text \<open>
  \<open>inside\<close> stands for turfpy's \<open>points_within_polygon\<close> (its features) and
  \<open>has_coordinates\<close> for the test \<open>len(storm_poly['geometry']['coordinates']) > 0\<close>.
\<close>

fun storm_impact ::
  "('c feature list \<Rightarrow> 'p \<Rightarrow> 'c feature list) \<Rightarrow> ('p \<Rightarrow> bool) \<Rightarrow> 'c feature list \<Rightarrow> geo_dict
     \<Rightarrow> 'p list \<Rightarrow> exc + geo_dict" where
  "storm_impact inside has_coordinates exposure_fc loss_dict [] = Inr loss_dict"
| "storm_impact inside has_coordinates exposure_fc loss_dict (storm_poly # rest) =
     (if has_coordinates storm_poly then
        (case add_losses loss_dict (inside exposure_fc storm_poly) of
           Inl e \<Rightarrow> Inl e
         | Inr loss_dict' \<Rightarrow> storm_impact inside has_coordinates exposure_fc loss_dict' rest)
      else storm_impact inside has_coordinates exposure_fc loss_dict rest)"

text \<open>
  What surrounds every run of \<open>run_losses\<close>: the fanout, floating-point division, the
  premiums by zip code, the geometry, and the keys of the dictionary literal of lines
  180-300 (its eleven states are listed here; its counties and zip codes are not).
\<close>

record ('p, 'c) surroundings =
  env_outputs :: "row fanout"
  env_round4 :: "int \<Rightarrow> int \<Rightarrow> rat"
  env_zip_to_prem :: "int pydict"
  env_inside :: "'c feature list \<Rightarrow> 'p \<Rightarrow> 'c feature list"
  env_has_coordinates :: "'p \<Rightarrow> bool"
  env_counties :: "string list"
  env_zip_codes :: "string list"

definition loss_dictionary :: "('p, 'c) surroundings \<Rightarrow> geo_dict" where
  "loss_dictionary env =
     \<lparr>d_total = 0,
      d_state = map (\<lambda>k. (k, 0))
                  [''AR'', ''TX'', ''GA'', ''IA'', ''IL'', ''NE'', ''IN'', ''KY'', ''MO'', ''OH'', ''TN''],
      d_county = map (\<lambda>k. (k, 0)) (env_counties env),
      d_zip = map (\<lambda>k. (k, 0)) (env_zip_codes env)\<rparr>"

text \<open>
  What one run of the function body takes from outside: the states as shuffled, the
  properties the database samples for a state, the number drawn for the storms, and the
  results of the successive calls of \<open>storm.generate_polygon()\<close>.
\<close>

record ('p, 'c) drawn =
  in_states :: "string list"
  in_props :: "string \<Rightarrow> 'c property list"
  in_limit :: int
  in_candidates :: "'p option list"

definition sampled :: "('p, 'c) surroundings \<Rightarrow> ('p, 'c) drawn \<Rightarrow> exc + 'c sampling" where
  "sampled env inp =
     sample_states (env_zip_to_prem env) (in_props inp)
       \<lparr>exposure_dictionary = loss_dictionary env, premium_dictionary = loss_dictionary env,
        exposures = []\<rparr>
       (in_states inp)"

text \<open>
  One run of the body of \<open>run_losses\<close> (lines 164-484): sampling, the rows of exposures and
  premiums, the storms, their impact, the rows of losses and loss ratios. The result is
  the exception that ends the run, if any, and the calls the fanout has received; \<open>None\<close>
  is a run whose storm loop does not return.
\<close>

definition run_losses_body ::
  "('p, 'c) surroundings \<Rightarrow> int option \<Rightarrow> int \<Rightarrow> nat \<Rightarrow> ('p, 'c) drawn \<Rightarrow> row sends
     \<Rightarrow> (exc option \<times> row sends) option" where
  "run_losses_body env output_schema_version runtime_timestamp sim_id inp sent =
     (let version = schema_version output_schema_version
      in (case sampled env inp of
            Inl e \<Rightarrow> Some (Some e, sent)
          | Inr s \<Rightarrow>
             (case write_exposures_and_premiums (env_outputs env) version runtime_timestamp
                     (int sim_id) (exposure_dictionary s) (premium_dictionary s) sent of
                (Some e, sent') \<Rightarrow> Some (Some e, sent')
              | (None, sent') \<Rightarrow>
                 (case generate_storms (in_limit inp) 0 [] (in_candidates inp) of
                    None \<Rightarrow> None
                  | Some storms \<Rightarrow>
                     (case storm_impact (env_inside env) (env_has_coordinates env) (exposures s)
                             (loss_dictionary env) storms of
                        Inl e \<Rightarrow> Some (Some e, sent')
                      | Inr loss_dict \<Rightarrow>
                          Some (write_losses_and_nlr (env_outputs env) (env_round4 env) version
                                  runtime_timestamp (int sim_id) loss_dict (premium_dictionary s)
                                  sent'))))))"

text \<open>
  \<open>run_losses\<close> under its decorator again, now with what its runs send: \<open>body n sent\<close> is
  the \<open>n\<close>-th run of the function body, started when the fanout has received \<open>sent\<close>.
\<close>

function run_losses_sending ::
  "(nat \<Rightarrow> row sends \<Rightarrow> (exc option \<times> row sends) option) \<Rightarrow> nat \<Rightarrow> nat \<Rightarrow> row sends
     \<Rightarrow> ((exc + nat) \<times> row sends) option" where
  "run_losses_sending body sim_id attempt_number sent =
     (case body attempt_number sent of
        None \<Rightarrow> None
      | Some (None, sent') \<Rightarrow> Some (Inr sim_id, sent')
      | Some (Some e, sent') \<Rightarrow>
          if attempt_number \<ge> SIMULATION_MAX_RETRIES then Some (Inl RetryError, sent')
          else run_losses_sending body sim_id (attempt_number + 1) sent')"
  by pat_completeness auto
termination
  by (relation "measure (\<lambda>(body, sim_id, attempt_number, sent). SIMULATION_MAX_RETRIES - attempt_number)")
     auto

text \<open>A simulation: the decorated function on the runs that \<open>inputs\<close> describes.\<close>

definition simulation ::
  "('p, 'c) surroundings \<Rightarrow> int option \<Rightarrow> int \<Rightarrow> nat \<Rightarrow> (nat \<Rightarrow> ('p, 'c) drawn) \<Rightarrow> row sends
     \<Rightarrow> ((exc + nat) \<times> row sends) option" where
  "simulation env output_schema_version runtime_timestamp sim_id inputs sent =
     run_losses_sending
       (\<lambda>n. run_losses_body env output_schema_version runtime_timestamp sim_id (inputs n))
       sim_id 1 sent"

text \<open>
  For the statements below: the total-level rows that one run sends for the output
  \<open>exposures\<close> when the fanout's \<open>send\<close> returns, two copies of the row of the exposure
  total when sampling returned with a total other than 0.
\<close>

definition total_rows_of_run ::
  "('p, 'c) surroundings \<Rightarrow> int \<Rightarrow> nat \<Rightarrow> ('p, 'c) drawn \<Rightarrow> row list" where
  "total_rows_of_run env runtime_timestamp sim_id inp =
     (case sampled env inp of
        Inl e \<Rightarrow> []
      | Inr s \<Rightarrow>
          if d_total (exposure_dictionary s) \<noteq> 0
          then replicate 2 (build_geo_type_row runtime_timestamp (int sim_id) ''total'' ''total''
                              (IntV (d_total (exposure_dictionary s))))
          else [])"

section \<open>Example values\<close>

text \<open>A small world for the concrete runs below: two zip codes, two counties, two states.\<close>

definition example_zip_to_prem :: "int pydict" where
  "example_zip_to_prem = [(''72560'', 250), (''30736'', 80)]"

definition example_levels :: "int \<Rightarrow> int \<Rightarrow> geo_dict" where
  "example_levels t ar =
     \<lparr>d_total = t, d_state = [(''AR'', ar), (''GA'', 0)],
      d_county = [(''Stone'', 0), (''Catoosa'', 0)],
      d_zip = [(''72560'', 0), (''30736'', 0)]\<rparr>"

definition example_sampling :: "int \<Rightarrow> int \<Rightarrow> unit sampling" where
  "example_sampling t ar =
     \<lparr>exposure_dictionary = example_levels t ar,
      premium_dictionary = example_levels 0 0, exposures = []\<rparr>"

definition example_property :: "unit property" where
  "example_property =
     \<lparr>p_state = ''AR'', p_county = ''Stone'', p_zip_code = ''72560'',
      p_limit = 100000, p_location = ()\<rparr>"

text \<open>The same world after \<open>n\<close> additions of \<open>example_property\<close> to a total of \<open>t\<close>.\<close>

definition example_added :: "int \<Rightarrow> nat \<Rightarrow> unit sampling" where
  "example_added t n =
     \<lparr>exposure_dictionary =
        \<lparr>d_total = t + 100000 * int n, d_state = [(''AR'', 100000 * int n), (''GA'', 0)],
         d_county = [(''Stone'', 100000 * int n), (''Catoosa'', 0)],
         d_zip = [(''72560'', 100000 * int n), (''30736'', 0)]\<rparr>,
      premium_dictionary =
        \<lparr>d_total = 250 * int n, d_state = [(''AR'', 250 * int n), (''GA'', 0)],
         d_county = [(''Stone'', 250 * int n), (''Catoosa'', 0)],
         d_zip = [(''72560'', 250 * int n), (''30736'', 0)]\<rparr>,
      exposures =
        replicate n \<lparr>f_state = ''AR'', f_county = ''Stone'', f_zip_code = ''72560'', f_point = ()\<rparr>\<rparr>"



text \<open>
  Surroundings in which every \<open>send\<close> returns and no storm hits a property, and what one
  run draws: one property in Arkansas, or none, and 951 polygons for a drawn count of 950.
\<close>

definition example_surroundings :: "(unit, unit) surroundings" where
  "example_surroundings =
     \<lparr>env_outputs = (\<lambda>output_name rows. None), env_round4 = (\<lambda>loss premium. 0),
      env_zip_to_prem = example_zip_to_prem, env_inside = (\<lambda>exposure_fc storm_poly. []),
      env_has_coordinates = (\<lambda>storm_poly. True),
      env_counties = [''Stone'', ''Catoosa''], env_zip_codes = [''72560'', ''30736'']\<rparr>"

definition example_drawn :: "(unit, unit) drawn" where
  "example_drawn =
     \<lparr>in_states = [''AR''], in_props = (\<lambda>loss_state. [example_property]),
      in_limit = 950, in_candidates = replicate 951 (Some ())\<rparr>"

definition example_nothing_drawn :: "(unit, unit) drawn" where
  "example_nothing_drawn =
     \<lparr>in_states = [''AR''], in_props = (\<lambda>loss_state. []),
      in_limit = 950, in_candidates = replicate 951 (Some ())\<rparr>"

section \<open>The exposure ceiling\<close>

lemmas sampling_defs =
  sample_prop_def ceiling_reached_def add_levels_def getitem_def iadd_item_def Let_def
  total_agg_limit_def state_agg_limit_def

lemmas example_defs =
  example_zip_to_prem_def example_sampling_def example_levels_def example_property_def

lemma sample_prop_Next:
  assumes "sample_prop zip_to_prem s p = Inr (Next s')"
  shows "d_total (exposure_dictionary s) \<le> total_agg_limit - 15000"
    and "d_total (exposure_dictionary s') = d_total (exposure_dictionary s) + p_limit p"
  using assms
  by (auto simp: sample_prop_def ceiling_reached_def add_levels_def Let_def
           split: if_splits sum.splits bool.splits)

text \<open>
  Over a whole inner loop: either nothing was added, or the total is within the limit
  of one of the properties of the list above the ceiling.
\<close>

lemma sample_props_total:
  "sample_props zip_to_prem s ps = Inr s' \<Longrightarrow>
   d_total (exposure_dictionary s') = d_total (exposure_dictionary s)
   \<or> (\<exists>p \<in> set ps. d_total (exposure_dictionary s') \<le> total_agg_limit + p_limit p)"
proof (induction ps arbitrary: s)
  case Nil
  then show ?case by simp
next
  case (Cons p ps)
  show ?case
  proof (cases "sample_prop zip_to_prem s p")
    case (Inl e)
    with Cons.prems show ?thesis by simp
  next
    case (Inr st)
    show ?thesis
    proof (cases st)
      case Break
      with Inr Cons.prems show ?thesis by simp
    next
      case (Next s1)
      with Inr Cons.prems have run: "sample_props zip_to_prem s1 ps = Inr s'" by simp
      from Inr Next have step: "sample_prop zip_to_prem s p = Inr (Next s1)" by simp
      from Cons.IH [OF run] sample_prop_Next [OF step] show ?thesis by auto
    qed
  qed
qed

text \<open>
  C1. Whatever the inner loop has done before (any state \<open>s0\<close>, any properties \<open>ps\<close>),
  when the loop body then adds a property \<open>p\<close>, the exposure total after the addition is
  at most \<open>total_agg_limit\<close> plus the limit of \<open>p\<close>, the amount added last.
\<close>

theorem exposure_total_within_one_limit:
  assumes "sample_props zip_to_prem s0 ps = Inr s1"
      and "sample_prop zip_to_prem s1 p = Inr (Next s2)"
  shows "d_total (exposure_dictionary s2) \<le> total_agg_limit + p_limit p"
  using sample_prop_Next [OF assms(2)] by simp

theorem exposure_total_within_one_limit_witness:
  "sample_props example_zip_to_prem (example_added 199800000 0) [example_property]
     = Inr (example_added 199800000 1)
   \<and> sample_prop example_zip_to_prem (example_added 199800000 1) example_property
     = Inr (Next (example_added 199800000 2))
   \<and> d_total (exposure_dictionary (example_added 199800000 2)) = 200000000
   \<and> d_total (exposure_dictionary (example_added 199800000 2))
       \<le> total_agg_limit + p_limit example_property"
proof -
  have loop: "sample_props example_zip_to_prem (example_added 199800000 0) [example_property]
                = Inr (example_added 199800000 1)"
    by (simp add: sampling_defs example_defs example_added_def)
  have step: "sample_prop example_zip_to_prem (example_added 199800000 1) example_property
                = Inr (Next (example_added 199800000 2))"
    by (simp add: sampling_defs example_defs example_added_def eval_nat_numeral)
  from loop step exposure_total_within_one_limit [OF loop step] show ?thesis
    by (simp add: example_added_def)
qed

text \<open>
  C2, as stated, has the check skip the addition at exact equality with a threshold. The
  code compares with \<open>>\<close>: at a total of exactly 200000000 - 15000, and at a state
  total of exactly 80000000 - 15000, the property is added.
\<close>

theorem ceiling_check_equality_counterexample:
  "d_total (exposure_dictionary (example_sampling 199985000 0)) \<ge> total_agg_limit - 15000
   \<and> (case sample_prop example_zip_to_prem (example_sampling 199985000 0) example_property of
        Inr (Next s') \<Rightarrow> d_total (exposure_dictionary s') = 200085000
      | _ \<Rightarrow> False)
   \<and> map_of (d_state (exposure_dictionary (example_sampling 0 79985000))) ''AR''
        = Some (state_agg_limit - 15000)
   \<and> (case sample_prop example_zip_to_prem (example_sampling 0 79985000) example_property of
        Inr (Next s') \<Rightarrow> map_of (d_state (exposure_dictionary s')) ''AR'' = Some 80085000
      | _ \<Rightarrow> False)"
  by (simp add: sampling_defs example_defs)

text \<open>
  C2, amended. For a property whose state, county and zip code are keys of the
  dictionaries and whose zip code has a premium: when the total is strictly above
  200000000 - 15000, or the property's state is strictly above 80000000 - 15000, the body
  breaks out of the loop, which returns the state unchanged; otherwise (equality with a
  threshold included) the total and the property's state, county and zip code are each
  increased by the property's limit.
\<close>

theorem ceiling_check_strict:
  fixes s :: "'c sampling" and p :: "'c property"
  assumes "map_of (d_state (exposure_dictionary s)) (p_state p) = Some sv"
      and "map_of (d_county (exposure_dictionary s)) (p_county p) = Some cv"
      and "map_of (d_zip (exposure_dictionary s)) (p_zip_code p) = Some zv"
      and "p_state p \<in> fst ` set (d_state (premium_dictionary s))"
      and "p_county p \<in> fst ` set (d_county (premium_dictionary s))"
      and "p_zip_code p \<in> fst ` set (d_zip (premium_dictionary s))"
      and "p_zip_code p \<in> fst ` set zip_to_prem"
  shows "if d_total (exposure_dictionary s) > total_agg_limit - 15000 \<or> sv > state_agg_limit - 15000
         then sample_prop zip_to_prem s p = Inr Break \<and> sample_props zip_to_prem s (p # rest) = Inr s
         else \<exists>s'. sample_prop zip_to_prem s p = Inr (Next s')
                \<and> d_total (exposure_dictionary s') = d_total (exposure_dictionary s) + p_limit p
                \<and> map_of (d_state (exposure_dictionary s')) (p_state p) = Some (sv + p_limit p)
                \<and> map_of (d_county (exposure_dictionary s')) (p_county p) = Some (cv + p_limit p)
                \<and> map_of (d_zip (exposure_dictionary s')) (p_zip_code p) = Some (zv + p_limit p)"
proof -
  from assms(4) obtain psv where ps: "map_of (d_state (premium_dictionary s)) (p_state p) = Some psv"
    by (metis domD dom_map_of_conv_image_fst)
  from assms(5) obtain pcv where pc: "map_of (d_county (premium_dictionary s)) (p_county p) = Some pcv"
    by (metis domD dom_map_of_conv_image_fst)
  from assms(6) obtain pzv where pz: "map_of (d_zip (premium_dictionary s)) (p_zip_code p) = Some pzv"
    by (metis domD dom_map_of_conv_image_fst)
  from assms(7) obtain rate where r: "map_of zip_to_prem (p_zip_code p) = Some rate"
    by (metis domD dom_map_of_conv_image_fst)
  show ?thesis
    using assms(1-3) ps pc pz r
    by (simp add: sample_prop_def ceiling_reached_def add_levels_def getitem_def iadd_item_def
          Let_def update_conv')
qed

theorem ceiling_check_strict_witness:
  "sample_prop example_zip_to_prem (example_sampling 199985001 0) example_property = Inr Break
   \<and> sample_props example_zip_to_prem (example_sampling 199985001 0) [example_property]
       = Inr (example_sampling 199985001 0)
   \<and> (\<exists>s'. sample_prop example_zip_to_prem (example_sampling 199985000 79885000) example_property
              = Inr (Next s')
         \<and> d_total (exposure_dictionary s') = 200085000
         \<and> map_of (d_state (exposure_dictionary s')) ''AR'' = Some 79985000
         \<and> map_of (d_county (exposure_dictionary s')) ''Stone'' = Some 100000
         \<and> map_of (d_zip (exposure_dictionary s')) ''72560'' = Some 100000)"
  using ceiling_check_strict [of "example_sampling 199985001 0" example_property 0 0 0
          example_zip_to_prem "[]"]
        ceiling_check_strict [of "example_sampling 199985000 79885000" example_property 79885000 0 0
          example_zip_to_prem "[]"]
  by (simp add: example_defs total_agg_limit_def state_agg_limit_def)

section \<open>The storms generated\<close>

declare generate_storms.simps [simp del]

lemma generate_storms_stop [simp]:
  "\<not> num_storms \<le> limit \<Longrightarrow> generate_storms limit num_storms storms candidates = Some storms"
  by (simp add: generate_storms.simps [of limit num_storms storms candidates])

lemma generate_storms_Nil [simp]:
  "num_storms \<le> limit \<Longrightarrow> generate_storms limit num_storms storms [] = None"
  by (simp add: generate_storms.simps [of limit num_storms storms "[]"])

lemma generate_storms_None [simp]:
  "num_storms \<le> limit \<Longrightarrow>
   generate_storms limit num_storms storms (None # rest) = generate_storms limit num_storms storms rest"
  by (simp add: generate_storms.simps [of limit num_storms storms "None # rest"])

lemma generate_storms_Some [simp]:
  "num_storms \<le> limit \<Longrightarrow>
   generate_storms limit num_storms storms (Some polygon # rest) =
     generate_storms limit (num_storms + 1) (storms @ [polygon]) rest"
  by (simp add: generate_storms.simps [of limit num_storms storms "Some polygon # rest"])

text \<open>
  The loop returns as soon as the candidates hold \<open>limit + 1 - num_storms\<close> polygons, and
  it keeps that many: one more than \<open>limit\<close> when it starts from 0.
\<close>

lemma generate_storms_enough:
  "limit + 1 - num_storms \<le> int (length (filter (\<lambda>c. c \<noteq> None) candidates)) \<Longrightarrow>
   \<exists>kept. generate_storms limit num_storms storms candidates = Some kept
        \<and> int (length kept) = int (length storms) + max 0 (limit + 1 - num_storms)"
proof (induction candidates arbitrary: num_storms storms)
  case Nil
  then show ?case by simp
next
  case (Cons c cs)
  show ?case
  proof (cases "num_storms \<le> limit")
    case False
    then show ?thesis by simp
  next
    case True
    show ?thesis
    proof (cases c)
      case None
      with Cons.prems have "limit + 1 - num_storms \<le> int (length (filter (\<lambda>c. c \<noteq> None) cs))" by simp
      from Cons.IH [OF this, of storms] True None show ?thesis by simp
    next
      case (Some p)
      with Cons.prems have "limit + 1 - (num_storms + 1) \<le> int (length (filter (\<lambda>c. c \<noteq> None) cs))" by simp
      from Cons.IH [OF this, of "storms @ [p]"] True Some show ?thesis by auto
    qed
  qed
qed

lemma generate_storms_length:
  "generate_storms limit num_storms storms candidates = Some kept \<Longrightarrow>
   int (length kept) = int (length storms) + max 0 (limit + 1 - num_storms)"
proof (induction candidates arbitrary: num_storms storms)
  case Nil
  then show ?case by (cases "num_storms \<le> limit") simp_all
next
  case (Cons c cs)
  show ?case
  proof (cases "num_storms \<le> limit")
    case False
    with Cons.prems show ?thesis by simp
  next
    case True
    show ?thesis
    proof (cases c)
      case None
      with Cons.prems True have "generate_storms limit num_storms storms cs = Some kept" by simp
      from Cons.IH [OF this] show ?thesis .
    next
      case (Some p)
      with Cons.prems True have "generate_storms limit (num_storms + 1) (storms @ [p]) cs = Some kept"
        by simp
      from Cons.IH [OF this] True show ?thesis by simp
    qed
  qed
qed

text \<open>
  C7. With a drawn count of 950 and every candidate a polygon, the loop of \<open>run_losses\<close>
  (started at \<open>num_storms = 0\<close> with no storms) returns after keeping 951 storms, not 950.
\<close>

theorem storms_one_more_than_limit:
  "map_option length (generate_storms 950 0 [] (replicate 951 (Some polygon))) = Some 951"
proof -
  have "(950::int) + 1 - 0 \<le> int (length (filter (\<lambda>c. c \<noteq> None) (replicate 951 (Some polygon))))"
    by simp
  from generate_storms_enough [OF this, of "[]"] show ?thesis by auto
qed

section \<open>The retried insert\<close>

declare insert_rows.simps [simp del]

lemma insert_rows_raise:
  "respond calls = Inl e \<Longrightarrow> insert_rows respond calls attempt_number = (Inl e, calls + 1)"
  by (subst insert_rows.simps) simp

lemma insert_rows_ok:
  "respond calls = Inr [] \<Longrightarrow> insert_rows respond calls attempt_number = (Inr [], calls + 1)"
  by (subst insert_rows.simps) simp

lemma insert_rows_stop:
  "respond calls = Inr errors \<Longrightarrow> errors \<noteq> [] \<Longrightarrow> attempt_number \<ge> INSERT_ROW_RETRY_MAX_RETRIES \<Longrightarrow>
   insert_rows respond calls attempt_number = (Inr errors, calls + 1)"
  by (subst insert_rows.simps) simp

lemma insert_rows_retry:
  "respond calls = Inr errors \<Longrightarrow> errors \<noteq> [] \<Longrightarrow> attempt_number < INSERT_ROW_RETRY_MAX_RETRIES \<Longrightarrow>
   insert_rows respond calls attempt_number = insert_rows respond (calls + 1) (attempt_number + 1)"
  by (subst insert_rows.simps) simp

text \<open>
  When every invocation returns errors, the attempts run up to the last one allowed, and
  the result is what that invocation returned.
\<close>

lemma insert_rows_always_failing:
  "\<forall>n. \<exists>errors. respond n = Inr errors \<and> errors \<noteq> [] \<Longrightarrow>
   attempt_number \<le> INSERT_ROW_RETRY_MAX_RETRIES \<Longrightarrow>
   insert_rows respond calls attempt_number =
     (respond (calls + (INSERT_ROW_RETRY_MAX_RETRIES - attempt_number)),
      calls + (INSERT_ROW_RETRY_MAX_RETRIES - attempt_number) + 1)"
proof (induction respond calls attempt_number rule: insert_rows.induct)
  case (1 respond calls attempt_number)
  from 1(2) obtain errors where e: "respond calls = Inr errors" "errors \<noteq> []" by blast
  show ?case
  proof (cases "attempt_number \<ge> INSERT_ROW_RETRY_MAX_RETRIES")
    case True
    with 1(3) have "attempt_number = INSERT_ROW_RETRY_MAX_RETRIES" by simp
    with insert_rows_stop [of respond calls errors attempt_number, OF e True] e show ?thesis by simp
  next
    case False
    then have lt: "attempt_number < INSERT_ROW_RETRY_MAX_RETRIES" by simp
    have ih: "insert_rows respond (calls + 1) (attempt_number + 1) =
            (respond (calls + 1 + (INSERT_ROW_RETRY_MAX_RETRIES - (attempt_number + 1))),
             calls + 1 + (INSERT_ROW_RETRY_MAX_RETRIES - (attempt_number + 1)) + 1)"
      by (rule 1(1) [OF e(1) e(2) False 1(2)]) (use lt in simp)
    have eq: "calls + 1 + (INSERT_ROW_RETRY_MAX_RETRIES - (attempt_number + 1)) =
              calls + (INSERT_ROW_RETRY_MAX_RETRIES - attempt_number)"
      using lt by simp
    have "insert_rows respond calls attempt_number = insert_rows respond (calls + 1) (attempt_number + 1)"
      by (rule insert_rows_retry [of respond calls errors attempt_number, OF e lt])
    with ih show ?thesis unfolding eq by simp
  qed
qed

lemma insert_rows_fail_twice:
  assumes "respond calls = Inr e1" "e1 \<noteq> []"
      and "respond (calls + 1) = Inr e2" "e2 \<noteq> []"
      and "respond (calls + 2) = Inr []"
  shows "insert_rows respond calls 1 = (Inr [], calls + 3)"
proof -
  have 3: "insert_rows respond (calls + 2) 3 = (Inr [], calls + 2 + 1)"
    by (rule insert_rows_ok [of respond "calls + 2", OF assms(5)])
  have 2: "insert_rows respond (calls + 1) 2 = insert_rows respond (calls + 1 + 1) (2 + 1)"
    by (rule insert_rows_retry [of respond "calls + 1" e2, OF assms(3,4)])
       (simp add: INSERT_ROW_RETRY_MAX_RETRIES_def)
  have 1: "insert_rows respond calls 1 = insert_rows respond (calls + 1) (1 + 1)"
    by (rule insert_rows_retry [of respond calls e1, OF assms(1,2)])
       (simp add: INSERT_ROW_RETRY_MAX_RETRIES_def)
  have a: "calls + 1 + 1 = calls + 2" "(2::nat) + 1 = 3" "(1::nat) + 1 = 2" "calls + 2 + 1 = calls + 3"
    by simp_all
  from 1 2 3 show ?thesis unfolding a by simp
qed

text \<open>
  C4. \<open>flush\<close> on a non-empty batch, from any invocation count \<open>calls\<close>. If every invocation
  of the insert returns a non-empty sequence of errors, the insert is invoked exactly 5
  times and \<open>flush\<close> raises \<open>Errors\<close> with the errors of the fifth invocation, the stream
  (its batch and its total) unchanged. If the next two invocations return errors and the
  third returns none, the insert is invoked exactly 3 times and \<open>flush\<close> returns with the
  batch emptied and the total increased by the size of the batch.
\<close>

theorem retrying_flush:
  assumes "batch self \<noteq> []"
  shows "((\<forall>n. \<exists>errors. respond n = Inr errors \<and> errors \<noteq> []) \<longrightarrow>
           (\<exists>errors. respond (calls + 4) = Inr errors
              \<and> bq_flush respond self calls = (Some (Errors errors), self, calls + 5)))
       \<and> ((\<exists>e1 e2. respond calls = Inr e1 \<and> e1 \<noteq> [] \<and> respond (calls + 1) = Inr e2 \<and> e2 \<noteq> []
            \<and> respond (calls + 2) = Inr []) \<longrightarrow>
           bq_flush respond self calls =
             (None, self\<lparr>total := total self + length (batch self), batch := []\<rparr>, calls + 3))"
proof (intro conjI impI)
  assume a: "\<forall>n. \<exists>errors. respond n = Inr errors \<and> errors \<noteq> []"
  then obtain errors where e: "respond (calls + 4) = Inr errors" "errors \<noteq> []" by blast
  have "insert_rows respond calls 1 = (respond (calls + 4), calls + 5)"
    using insert_rows_always_failing [OF a, of 1 calls]
    by (simp add: INSERT_ROW_RETRY_MAX_RETRIES_def)
  with e assms show "\<exists>errors. respond (calls + 4) = Inr errors
            \<and> bq_flush respond self calls = (Some (Errors errors), self, calls + 5)"
    by (simp add: bq_flush_def)
next
  assume "\<exists>e1 e2. respond calls = Inr e1 \<and> e1 \<noteq> [] \<and> respond (calls + 1) = Inr e2 \<and> e2 \<noteq> []
            \<and> respond (calls + 2) = Inr []"
  then obtain e1 e2 where "respond calls = Inr e1" "e1 \<noteq> []" "respond (calls + 1) = Inr e2" "e2 \<noteq> []"
     "respond (calls + 2) = Inr []" by blast
  from insert_rows_fail_twice [OF this] assms
  show "bq_flush respond self calls =
             (None, self\<lparr>total := total self + length (batch self), batch := []\<rparr>, calls + 3)"
    by (simp add: bq_flush_def)
qed

theorem retrying_flush_witness:
  "bq_flush (\<lambda>n. Inr [''quota exceeded'']) \<lparr>batch_size = 10000, batch = [1::nat, 2], total = 0\<rparr> 0
     = (Some (Errors [''quota exceeded'']), \<lparr>batch_size = 10000, batch = [1, 2], total = 0\<rparr>, 5)
   \<and> bq_flush (\<lambda>n. if n < 2 then Inr [''backend error''] else Inr [])
        \<lparr>batch_size = 10000, batch = [1::nat, 2], total = 0\<rparr> 0
     = (None, \<lparr>batch_size = 10000, batch = [], total = 2\<rparr>, 3)"
  using retrying_flush [of "\<lparr>batch_size = 10000, batch = [1::nat, 2], total = 0\<rparr>"
          "\<lambda>n. Inr [''quota exceeded'']" 0]
        retrying_flush [of "\<lparr>batch_size = 10000, batch = [1::nat, 2], total = 0\<rparr>"
          "\<lambda>n. if n < 2 then Inr [''backend error''] else Inr []" 0]
  by simp

section \<open>The writers the drivers set up\<close>

text \<open>
  C9, as stated, has every call of the two helpers raise \<open>TypeError\<close>.
  \<open>setup_bigquery_writer\<close> tests \<open>project_id\<close> first: without a project id it raises the
  plain \<open>Exception\<close> of that test, and never reaches the constructor.
\<close>

theorem project_id_guard_counterexample:
  "setup_bigquery_writer None DEFAULT_DATASET
     = Inl (Exception ''--project_id is REQUIRED when using the --output_bigquery flag'')"
  by (simp add: setup_bigquery_writer_def)

text \<open>
  C9, amended. Every call of \<open>setup_csv_writer\<close> raises \<open>TypeError\<close>, whatever the file
  system holds; every call of \<open>setup_bigquery_writer\<close> raises, the exception of its
  \<open>project_id\<close> test when the project id is \<open>None\<close> or empty and \<open>TypeError\<close> otherwise;
  and \<open>_start_simulation\<close> with \<open>output_bigquery\<close> set leaves with that exception before
  it runs the simulation.
\<close>

theorem writer_setup_always_raises:
  "setup_csv_writer path_exists csv_output_dir csv_overwrite
     = Inl (TypeError ''__init__() missing 1 required positional argument'')
   \<and> setup_bigquery_writer project_id dataset
     = Inl (if project_id = None \<or> project_id = Some []
            then Exception ''--project_id is REQUIRED when using the --output_bigquery flag''
            else TypeError ''__init__() missing 1 required positional argument'')
   \<and> start_simulation attempt project_id dataset STORM_TYPE_HAIL sim_id True
     = (Some (if project_id = None \<or> project_id = Some []
              then Exception ''--project_id is REQUIRED when using the --output_bigquery flag''
              else TypeError ''__init__() missing 1 required positional argument''), [])"
  by (cases project_id)
     (simp_all add: setup_csv_writer_def setup_bigquery_writer_def LocalCsvWriter_def
        BigqueryRowWriter_def missing_argument_def start_simulation_def
        SUPPORTED_STORM_TYPES_def)

section \<open>A simulation that fails\<close>

declare run_losses.simps [simp del]

lemma run_losses_returns:
  "attempt sim_id attempt_number = None \<Longrightarrow> run_losses attempt sim_id attempt_number = Inr sim_id"
  by (subst run_losses.simps) simp

lemma run_losses_retries:
  "attempt sim_id attempt_number = Some e \<Longrightarrow> attempt_number < SIMULATION_MAX_RETRIES \<Longrightarrow>
   run_losses attempt sim_id attempt_number = run_losses attempt sim_id (attempt_number + 1)"
  by (subst run_losses.simps) simp

lemma run_losses_gives_up:
  "attempt sim_id attempt_number = Some e \<Longrightarrow> attempt_number \<ge> SIMULATION_MAX_RETRIES \<Longrightarrow>
   run_losses attempt sim_id attempt_number = Inl RetryError"
  by (subst run_losses.simps) simp

text \<open>The decorated function makes at most three attempts, and returns if one of them does.\<close>

lemma run_losses_three_attempts:
  "run_losses attempt sim_id (Suc 0) =
     (if attempt sim_id (Suc 0) = None \<or> attempt sim_id 2 = None \<or> attempt sim_id 3 = None
      then Inr sim_id else Inl RetryError)"
proof -
  have 3: "run_losses attempt sim_id (Suc (Suc (Suc 0))) =
             (if attempt sim_id (Suc (Suc (Suc 0))) = None then Inr sim_id else Inl RetryError)"
    by (cases "attempt sim_id (Suc (Suc (Suc 0)))")
       (simp_all add: run_losses_returns run_losses_gives_up SIMULATION_MAX_RETRIES_def)
  have 2: "run_losses attempt sim_id (Suc (Suc 0)) =
             (if attempt sim_id (Suc (Suc 0)) = None then Inr sim_id
              else run_losses attempt sim_id (Suc (Suc (Suc 0))))"
  proof (cases "attempt sim_id (Suc (Suc 0))")
    case None
    then show ?thesis by (simp add: run_losses_returns)
  next
    case (Some e)
    from run_losses_retries [of attempt sim_id "Suc (Suc 0)" e, OF Some] Some show ?thesis
      by (simp add: SIMULATION_MAX_RETRIES_def)
  qed
  have 1: "run_losses attempt sim_id (Suc 0) =
             (if attempt sim_id (Suc 0) = None then Inr sim_id
              else run_losses attempt sim_id (Suc (Suc 0)))"
  proof (cases "attempt sim_id (Suc 0)")
    case None
    then show ?thesis by (simp add: run_losses_returns)
  next
    case (Some e)
    from run_losses_retries [of attempt sim_id "Suc 0" e, OF Some] Some show ?thesis
      by (simp add: SIMULATION_MAX_RETRIES_def)
  qed
  from 1 2 3 show ?thesis by (simp add: eval_nat_numeral)
qed

lemma map_run_losses_stops:
  "\<forall>i \<in> set xs. run_losses attempt i 1 = Inr i \<Longrightarrow> run_losses attempt k 1 = Inl e \<Longrightarrow>
   map_run_losses attempt (xs @ k # rest) so_far
     = (Some e, \<lparr>started = started so_far @ xs @ [k], returned = returned so_far @ xs\<rparr>)"
  by (induction xs arbitrary: so_far) simp_all

text \<open>
  C5, as stated, has the simulations after a failed one still run. In the single-process
  branch of \<open>main\<close> they do not: of three simulations of which number 1 fails on each of
  its attempts, number 2 is never started, and the exception leaves the map.
\<close>

theorem failed_trial_counterexample:
  "main_single_process (\<lambda>sim_id n. if sim_id = 1 then Some (Exception ''sample failed'') else None) 3
     = (Some RetryError, \<lparr>started = [0, 1], returned = [0]\<rparr>)"
  by (simp add: main_single_process_def run_losses_three_attempts upt_rec)

text \<open>
  C5, amended. Let simulation \<open>k\<close> be the first whose three attempts all raise. In the
  single-process branch of \<open>main\<close>, \<open>RetryError\<close> leaves the map over the simulations: the
  simulations before \<open>k\<close> have returned, \<open>k\<close> is the last one started, and nothing records
  \<open>k\<close> as failed. \<open>_start_simulation\<close>, which runs one simulation for one event, catches
  the exception and logs the failure.
\<close>

theorem failed_trial_aborts_map:
  assumes "k < num_simulations"
      and "attempt k 1 \<noteq> None \<and> attempt k 2 \<noteq> None \<and> attempt k 3 \<noteq> None"
      and "\<forall>i<k. attempt i 1 = None \<or> attempt i 2 = None \<or> attempt i 3 = None"
  shows "main_single_process attempt num_simulations
           = (Some RetryError, \<lparr>started = [0..<Suc k], returned = [0..<k]\<rparr>)
       \<and> start_simulation attempt project_id dataset STORM_TYPE_HAIL k False
           = (None, [''Running simulation without output.'', ''Simulation failed.'',
                     ''Exception from simulation''])"
proof -
  have fail: "run_losses attempt k 1 = Inl RetryError"
    using assms(2) by (simp add: run_losses_three_attempts)
  have ok: "\<forall>i \<in> set [0..<k]. run_losses attempt i 1 = Inr i"
    using assms(3) by (simp add: run_losses_three_attempts)
  have split: "[0..<num_simulations] = [0..<k] @ k # [Suc k..<num_simulations]"
    using assms(1) by (metis less_imp_add_positive upt_add_eq_append upt_conv_Cons zero_le)
  show ?thesis
    using map_run_losses_stops [OF ok fail, of "[Suc k..<num_simulations]" "\<lparr>started = [], returned = []\<rparr>"]
          fail
    by (simp add: main_single_process_def split start_simulation_def SUPPORTED_STORM_TYPES_def)
qed

theorem failed_trial_aborts_map_witness:
  "main_single_process
     (\<lambda>sim_id n. if sim_id = 1 \<or> sim_id = 0 \<and> n < 3 then Some (Exception ''sample failed'') else None) 4
     = (Some RetryError, \<lparr>started = [0, 1], returned = [0]\<rparr>)
   \<and> start_simulation
       (\<lambda>sim_id n. if sim_id = 1 \<or> sim_id = 0 \<and> n < 3 then Some (Exception ''sample failed'') else None)
       None DEFAULT_DATASET STORM_TYPE_HAIL 1 False
     = (None, [''Running simulation without output.'', ''Simulation failed.'',
               ''Exception from simulation''])"
  using failed_trial_aborts_map [of 1 4
     "\<lambda>sim_id n. if sim_id = 1 \<or> sim_id = 0 \<and> n < 3 then Some (Exception ''sample failed'') else None"
     None DEFAULT_DATASET]
  by (simp add: upt_rec)

section \<open>The CSV files\<close>








section \<open>The buffered output stream\<close>

text \<open>With a fanout whose \<open>send\<close> returns, a flush sends the buffer and clears it.\<close>

lemma flush_items_sends:
  "\<forall>k rs. outputs k rs = None \<Longrightarrow>
   flush_items outputs b sent = (None, sent @ sends_of_buffer b)"
proof (induction b arbitrary: sent)
  case Nil
  then show ?case by (simp add: sends_of_buffer_def)
next
  case (Cons kv b)
  obtain k rs where kv: "kv = (k, rs)" by (cases kv)
  show ?case
  proof (cases "rs = []")
    case True
    with Cons kv show ?thesis by (simp add: sends_of_buffer_def)
  next
    case False
    with Cons.prems have "flush_items outputs (kv # b) sent = flush_items outputs b (sent @ [(k, Rows rs)])"
      by (simp add: kv send_def)
    with Cons.IH [OF Cons.prems, of "sent @ [(k, Rows rs)]"] False kv show ?thesis
      by (simp add: sends_of_buffer_def)
  qed
qed

lemma stream_flush_sends:
  "\<forall>k rs. outputs k rs = None \<Longrightarrow>
   stream_flush outputs self sent
     = (None, self\<lparr>buffer := [], total_in_buffer := 0\<rparr>, sent @ sends_of_buffer (buffer self))"
  by (simp add: stream_flush_def flush_items_sends init_buffer_def)

text \<open>
  No output name is twice in a buffer, so a flush sends each name at most once. This holds
  of the empty buffer and every \<open>add\<close> keeps it.
\<close>

lemma distinct_sends_of_buffer:
  "distinct (map fst b) \<Longrightarrow> distinct (map fst (sends_of_buffer b))"
proof -
  have "map fst (sends_of_buffer b) = map fst (filter (\<lambda>(output_name, rows). rows \<noteq> []) b)"
    by (simp add: sends_of_buffer_def case_prod_beta comp_def)
  then show "distinct (map fst b) \<Longrightarrow> distinct (map fst (sends_of_buffer b))"
    by (simp add: distinct_map_filter)
qed

lemma distinct_buffer_extend:
  "distinct (map fst b) \<Longrightarrow> distinct (map fst (buffer_extend b output_name rows))"
  by (auto simp: buffer_extend_def distinct_update map_of_eq_None_iff split: option.splits)

lemma buffered_distinct:
  "distinct (map fst (buffer self)) \<Longrightarrow> distinct (map fst (buffer (buffered output_name rows self)))"
  by (simp add: buffered_def distinct_buffer_extend)

lemma stream_add_result:
  assumes "\<forall>k rs. outputs k rs = None"
  shows "stream_add outputs output_name rows self sent =
     (if buffer_len (buffer (buffered output_name (as_list rows) self)) output_name \<ge> per_output_max_rows self
         \<or> total_in_buffer self + int (length (as_list rows)) \<ge> total_buffer_max_rows self
      then (None, (buffered output_name (as_list rows) self)\<lparr>buffer := [], total_in_buffer := 0\<rparr>,
            sent @ sends_of_buffer (buffer (buffered output_name (as_list rows) self)))
      else (None, buffered output_name (as_list rows) self, sent))"
  using assms by (simp add: stream_add_def Let_def stream_flush_sends) (simp add: buffered_def)

lemma stream_add_distinct:
  assumes "\<forall>k rs. outputs k rs = None" "distinct (map fst (buffer self))"
      and "stream_add outputs output_name rows self sent = (raised, self', sent')"
  shows "raised = None \<and> distinct (map fst (buffer self'))"
  using assms(3) buffered_distinct [OF assms(2), of output_name "as_list rows"]
  unfolding stream_add_result [OF assms(1)]
  by (auto split: if_splits)

lemma run_body_distinct:
  assumes "\<forall>k rs. outputs k rs = None"
  shows "distinct (map fst (buffer self)) \<Longrightarrow> run_body outputs body self sent = (raised, self', sent') \<Longrightarrow>
         distinct (map fst (buffer self'))"
proof (induction body arbitrary: self sent)
  case Nil
  then show ?case by simp
next
  case (Cons st body)
  show ?case
  proof (cases st)
    case (Raise e)
    with Cons.prems show ?thesis by simp
  next
    case (Add output_name rows)
    obtain r1 s1 t1 where a: "stream_add outputs output_name rows self sent = (r1, s1, t1)"
      by (cases "stream_add outputs output_name rows self sent")
    from stream_add_distinct [OF assms Cons.prems(1) a] have r: "r1 = None" and d: "distinct (map fst (buffer s1))"
      by simp_all
    from Cons.prems(2) Add a r have "run_body outputs body s1 t1 = (raised, self', sent')" by simp
    from Cons.IH [OF d this] show ?thesis .
  qed
qed


text \<open>
  A flush whose sends all return sends the whole buffer; one in which a send raises stops
  with that send.
\<close>

lemma sends_of_buffer_Cons:
  "sends_of_buffer ((k, rs) # b) = (if rs \<noteq> [] then [(k, Rows rs)] else []) @ sends_of_buffer b"
  by (simp add: sends_of_buffer_def)

lemma flush_items_returns:
  "\<forall>(k, rs) \<in> set (sends_of_buffer b). outputs k rs = None \<Longrightarrow>
   flush_items outputs b sent = (None, sent @ sends_of_buffer b)"
proof (induction b arbitrary: sent)
  case Nil
  then show ?case by (simp add: sends_of_buffer_def)
next
  case (Cons kv b)
  obtain k rs where kv: "kv = (k, rs)" by (cases kv)
  from Cons.prems kv have rest: "\<forall>(k, rs) \<in> set (sends_of_buffer b). outputs k rs = None"
    by (simp add: sends_of_buffer_Cons)
  show ?case
  proof (cases "rs = []")
    case True
    with Cons.IH [OF rest] kv show ?thesis by (simp add: sends_of_buffer_Cons)
  next
    case False
    with Cons.prems kv have "outputs k (Rows rs) = None" by (simp add: sends_of_buffer_Cons)
    with False have "flush_items outputs (kv # b) sent = flush_items outputs b (sent @ [(k, Rows rs)])"
      by (simp add: kv send_def)
    with Cons.IH [OF rest, of "sent @ [(k, Rows rs)]"] False kv show ?thesis
      by (simp add: sends_of_buffer_Cons)
  qed
qed

lemma flush_items_raises:
  "sends_of_buffer b = pre @ (k, rs) # post \<Longrightarrow>
   \<forall>(k', rs') \<in> set pre. outputs k' rs' = None \<Longrightarrow> outputs k rs = Some e \<Longrightarrow>
   flush_items outputs b sent = (Some e, sent @ pre @ [(k, rs)])"
proof (induction b arbitrary: pre sent)
  case Nil
  then show ?case by (simp add: sends_of_buffer_def)
next
  case (Cons kv b)
  obtain k0 rs0 where kv: "kv = (k0, rs0)" by (cases kv)
  show ?case
  proof (cases "rs0 = []")
    case True
    with Cons.prems(1) kv have "sends_of_buffer b = pre @ (k, rs) # post"
      by (simp add: sends_of_buffer_Cons)
    from Cons.IH [OF this Cons.prems(2,3)] True kv show ?thesis by simp
  next
    case False
    with Cons.prems(1) kv have eq: "(k0, Rows rs0) # sends_of_buffer b = pre @ (k, rs) # post"
      by (simp add: sends_of_buffer_Cons)
    show ?thesis
    proof (cases pre)
      case Nil
      with eq have "k = k0" "rs = Rows rs0" by simp_all
      with Cons.prems(3) False kv Nil show ?thesis by (simp add: send_def)
    next
      case (Cons p pre')
      with eq have p: "p = (k0, Rows rs0)" and rest: "sends_of_buffer b = pre' @ (k, rs) # post"
        by simp_all
      from Cons.prems(2) Cons p have ok0: "outputs k0 (Rows rs0) = None"
        and ok: "\<forall>(k', rs') \<in> set pre'. outputs k' rs' = None" by simp_all
      from Cons.IH [OF rest ok Cons.prems(3), of "sent @ [(k0, Rows rs0)]"] ok0 False kv Cons p
      show ?thesis by (simp add: send_def)
    qed
  qed
qed

text \<open>
  In a buffer without repeated names, \<open>extend\<close> appends the rows to the entry of the name
  where it stands, or adds the name with its rows at the end.
\<close>

lemma map_other_keys:
  "name \<notin> fst ` set b \<Longrightarrow>
   map (\<lambda>(k, rs). if k = name then (k, rs @ rows) else (k, rs)) b = b"
  by (induction b) auto

lemma update_as_map:
  "distinct (map fst b) \<Longrightarrow> map_of b name = Some old \<Longrightarrow>
   AList.update name (old @ rows) b
     = map (\<lambda>(k, rs). if k = name then (k, rs @ rows) else (k, rs)) b"
proof (induction b)
  case Nil
  then show ?case by simp
next
  case (Cons kv b)
  obtain k rs where kv: "kv = (k, rs)" by (cases kv)
  show ?case
  proof (cases "k = name")
    case True
    with Cons.prems kv have "old = rs" "name \<notin> fst ` set b" by auto
    with True kv show ?thesis by (simp add: map_other_keys)
  next
    case False
    with Cons kv show ?thesis by simp
  qed
qed

lemma buffer_extend_explicit:
  "distinct (map fst b) \<Longrightarrow>
   buffer_extend b name rows =
     (if name \<in> fst ` set b
      then map (\<lambda>(k, rs). if k = name then (k, rs @ rows) else (k, rs)) b
      else b @ [(name, rows)])"
proof (cases "map_of b name")
  case None
  then have "name \<notin> fst ` set b" by (simp add: map_of_eq_None_iff)
  with None show ?thesis by (simp add: buffer_extend_def)
next
  case (Some old)
  assume d: "distinct (map fst b)"
  from Some have "name \<in> fst ` set b" by (metis domI dom_map_of_conv_image_fst)
  with Some update_as_map [OF d Some] show ?thesis by (simp add: buffer_extend_def)
qed

text \<open>
  Rows are neither lost nor sent twice: what the fanout has been sent for an output name,
  followed by what waits in the buffer for it, grows by exactly the rows added.
\<close>

lemma buffered_rows_Nil [simp]: "buffered_rows k [] = []"
  by (simp add: buffered_rows_def)

lemma buffered_rows_extend:
  "buffered_rows k (buffer_extend b name rows) = buffered_rows k b @ (if k = name then rows else [])"
proof (cases "map_of b name")
  case None
  then show ?thesis
    by (cases "map_of b k") (auto simp: buffered_rows_def buffer_extend_def map_add_def)
next
  case (Some old)
  then show ?thesis
    by (simp add: buffered_rows_def buffer_extend_def update_conv')
qed

lemma buffer_len_extend:
  "buffer_len (buffer_extend b name rows) name = int (length (buffered_rows name b @ rows))"
proof -
  have "buffer_len c name = int (length (buffered_rows name c))" for c :: "(string \<times> 'a list) list"
    by (simp add: buffer_len_def buffered_rows_def split: option.splits)
  then show ?thesis by (simp add: buffered_rows_extend)
qed

lemma rows_to_append: "rows_to k (a @ b) = rows_to k a @ rows_to k b"
  by (simp add: rows_to_def)

lemma rows_to_sends_of_buffer:
  "distinct (map fst b) \<Longrightarrow> rows_to k (sends_of_buffer b) = buffered_rows k b"
proof (induction b)
  case Nil
  then show ?case by (simp add: rows_to_def sends_of_buffer_def buffered_rows_def)
next
  case (Cons kv b)
  obtain k0 rs0 where kv: "kv = (k0, rs0)" by (cases kv)
  from Cons.prems kv have d: "distinct (map fst b)" and new: "k0 \<notin> fst ` set b" by auto
  have "rows_to k (sends_of_buffer (kv # b)) = (if k0 = k then rs0 else []) @ rows_to k (sends_of_buffer b)"
    by (simp add: kv sends_of_buffer_Cons rows_to_append) (simp add: rows_to_def as_list_def)
  also have "\<dots> = (if k0 = k then rs0 else []) @ buffered_rows k b"
    by (simp add: Cons.IH [OF d])
  also have "\<dots> = buffered_rows k (kv # b)"
    using map_of_eq_None_iff [THEN iffD2, OF new] by (simp add: kv buffered_rows_def)
  finally show ?case .
qed

lemma stream_add_conserves:
  assumes "\<forall>k rs. outputs k rs = None" "distinct (map fst (buffer self))"
      and "stream_add outputs name rows self sent = (raised, self', sent')"
  shows "rows_to k sent' @ buffered_rows k (buffer self')
           = rows_to k sent @ buffered_rows k (buffer self) @ (if k = name then as_list rows else [])"
proof -
  have d: "distinct (map fst (buffer (buffered name (as_list rows) self)))"
    by (rule buffered_distinct [OF assms(2)])
  have b: "buffered_rows k' (buffer (buffered name (as_list rows) self))
             = buffered_rows k' (buffer self) @ (if k' = name then as_list rows else [])" for k'
    by (simp add: buffered_def buffered_rows_extend)
  from assms(3) show ?thesis
    unfolding stream_add_result [OF assms(1)]
    by (auto simp: rows_to_append rows_to_sends_of_buffer [OF d] b split: if_splits)
qed

lemma run_body_conserves:
  assumes "\<forall>k rs. outputs k rs = None"
  shows "distinct (map fst (buffer self)) \<Longrightarrow> run_body outputs body self sent = (raised, self', sent') \<Longrightarrow>
         rows_to k sent' @ buffered_rows k (buffer self')
           = rows_to k sent @ buffered_rows k (buffer self) @ rows_added k body"
proof (induction body arbitrary: self sent)
  case Nil
  then show ?case by simp
next
  case (Cons st body)
  show ?case
  proof (cases st)
    case (Raise e)
    with Cons.prems show ?thesis by simp
  next
    case (Add name rows)
    obtain r1 s1 t1 where a: "stream_add outputs name rows self sent = (r1, s1, t1)"
      by (cases "stream_add outputs name rows self sent")
    from stream_add_distinct [OF assms Cons.prems(1) a] have r: "r1 = None" and d: "distinct (map fst (buffer s1))"
      by simp_all
    from Cons.prems(2) Add a r have run: "run_body outputs body s1 t1 = (raised, self', sent')" by simp
    from Cons.IH [OF d run] stream_add_conserves [OF assms Cons.prems(1) a, of k] Add
    show ?thesis by simp
  qed
qed

lemma with_stream_conserves:
  assumes "\<forall>k rs. outputs k rs = None"
  shows "rows_to k (snd (snd (with_stream outputs self body sent))) = rows_to k sent @ rows_added k body"
proof -
  obtain raised self1 sent1 where run: "run_body outputs body (init_buffer self) sent = (raised, self1, sent1)"
    by (cases "run_body outputs body (init_buffer self) sent")
  have d0: "distinct (map fst (buffer (init_buffer self)))" by (simp add: init_buffer_def)
  from run_body_distinct [OF assms d0 run] have d: "distinct (map fst (buffer self1))" .
  have w: "with_stream outputs self body sent
          = (raised, self1\<lparr>buffer := [], total_in_buffer := 0\<rparr>, sent1 @ sends_of_buffer (buffer self1))"
    by (simp add: with_stream_def run stream_flush_sends [OF assms])
  from run_body_conserves [OF assms d0 run, of k]
  show ?thesis
    by (simp add: w rows_to_append rows_to_sends_of_buffer [OF d] init_buffer_def)
qed


text \<open>
  C3, as stated, has every flush clear the buffers, and send the kinds in a
  registration order. With a fanout whose \<open>send\<close> raises for \<open>premiums\<close>, the flush that
  an \<open>add\<close> triggers sends \<open>exposures\<close>, raises at \<open>premiums\<close> and clears nothing, so the flush
  at the exit of the scope sends \<open>exposures\<close> a second time. And with a fanout whose \<open>send\<close>
  returns, two flushes of one stream send \<open>premiums\<close> and \<open>losses\<close> in opposite orders: the
  order is that of the first \<open>add\<close> since the last flush.
\<close>

theorem buffered_stream_counterexample:
  "with_stream (\<lambda>k rs. if k = ''premiums'' then Some (Exception ''sink down'') else None)
     (BufferedOutputStream 2 5000)
     [Add ''exposures'' (Row (1 :: nat)), Add ''premiums'' (Rows [2, 3])] []
     = (Some (Exception ''sink down''),
        \<lparr>per_output_max_rows = 2, total_buffer_max_rows = 5000,
         buffer = [(''exposures'', [1]), (''premiums'', [2, 3])], total_in_buffer = 3\<rparr>,
        [(''exposures'', Rows [1]), (''premiums'', Rows [2, 3]),
         (''exposures'', Rows [1]), (''premiums'', Rows [2, 3])])
   \<and> with_stream (\<lambda>k rs. None) (BufferedOutputStream 2 5000)
       [Add ''premiums'' (Row (1 :: nat)), Add ''losses'' (Rows [2, 3]),
        Add ''losses'' (Row 4), Add ''premiums'' (Rows [5, 6])] []
     = (None,
        \<lparr>per_output_max_rows = 2, total_buffer_max_rows = 5000, buffer = [], total_in_buffer = 0\<rparr>,
        [(''premiums'', Rows [1]), (''losses'', Rows [2, 3]),
         (''losses'', Rows [4]), (''premiums'', Rows [5, 6])])"
  by (simp add: stream_add_def stream_flush_def init_buffer_def buffered_def buffer_extend_def
        buffer_len_def as_list_def send_def with_stream_def BufferedOutputStream_def Let_def)

text \<open>
  C3, amended. For a stream in whose buffer no output name occurs twice (as in every
  buffer that \<open>add\<close> builds), and a fanout whose \<open>send\<close> returns:
  \<^item> \<open>flush\<close> sends the rows of each output name that has any, one \<open>send\<close> per name, in
    the order in which the names entered the buffer since it was last emptied, then empties
    the buffer and sets the counter to 0;
  \<^item> \<open>add\<close> appends the rows to those of their output name (a new name goes last) and
    counts them; when that name's rows have reached \<open>per_output_max_rows\<close>, or the counter
    \<open>total_buffer_max_rows\<close>, what it does further is exactly one flush; otherwise it sends
    nothing;
  \<^item> a \<open>with\<close> block, whether its body returns or raises, ends with one flush of what
    the body left in the buffer (no \<open>send\<close> at all if that is empty), the body's exception,
    if any, goes on, and for every output name the fanout has then been sent exactly the
    rows that the body added, in the order in which it added them.
  For any fanout, no flush sends a name twice, and a flush in which a \<open>send\<close> raises ends
  with that \<open>send\<close>: the exception goes on and the buffer and the counter stay as they were.
\<close>

theorem buffered_stream_flushes:
  assumes "distinct (map fst (buffer self))"
  shows "((\<forall>k rs. outputs k rs = None) \<longrightarrow>
            stream_flush outputs self sent
              = (None, self\<lparr>buffer := [], total_in_buffer := 0\<rparr>, sent @ sends_of_buffer (buffer self))
          \<and> (let old = buffered_rows output_name (buffer self);
                  added = as_list rows;
                  b' = (if output_name \<in> fst ` set (buffer self)
                        then map (\<lambda>(name, rs). if name = output_name then (name, rs @ added)
                                                else (name, rs)) (buffer self)
                        else buffer self @ [(output_name, added)])
              in stream_add outputs output_name rows self sent
                   = (if int (length (old @ added)) \<ge> per_output_max_rows self
                         \<or> total_in_buffer self + int (length added) \<ge> total_buffer_max_rows self
                      then (None, self\<lparr>buffer := [], total_in_buffer := 0\<rparr>,
                            sent @ sends_of_buffer b')
                      else (None, self\<lparr>buffer := b',
                                       total_in_buffer := total_in_buffer self + int (length added)\<rparr>,
                            sent)))
          \<and> (\<exists>self1 sent1.
                run_body outputs body (init_buffer self) sent
                  = (fst (run_body outputs body (init_buffer self) sent), self1, sent1)
              \<and> distinct (map fst (sends_of_buffer (buffer self1)))
              \<and> with_stream outputs self body sent
                  = (fst (run_body outputs body (init_buffer self) sent),
                     self1\<lparr>buffer := [], total_in_buffer := 0\<rparr>,
                     sent1 @ sends_of_buffer (buffer self1)))
          \<and> (\<forall>k. rows_to k (snd (snd (with_stream outputs self body sent)))
                    = rows_to k sent @ rows_added k body))
       \<and> distinct (map fst (sends_of_buffer (buffer self)))
       \<and> (\<forall>pre k rs post e.
             sends_of_buffer (buffer self) = pre @ (k, rs) # post
             \<and> (\<forall>(k', rs') \<in> set pre. outputs k' rs' = None) \<and> outputs k rs = Some e \<longrightarrow>
             stream_flush outputs self sent = (Some e, self, sent @ pre @ [(k, rs)]))"
proof (intro conjI impI allI)
  show "distinct (map fst (sends_of_buffer (buffer self)))"
    by (rule distinct_sends_of_buffer [OF assms])
next
  fix pre k rs post e
  assume a: "sends_of_buffer (buffer self) = pre @ (k, rs) # post
             \<and> (\<forall>(k', rs') \<in> set pre. outputs k' rs' = None) \<and> outputs k rs = Some e"
  then have "flush_items outputs (buffer self) sent = (Some e, sent @ pre @ [(k, rs)])"
    by (intro flush_items_raises) simp_all
  then show "stream_flush outputs self sent = (Some e, self, sent @ pre @ [(k, rs)])"
    by (simp add: stream_flush_def)
next
  assume ok: "\<forall>k rs. outputs k rs = None"
  show "stream_flush outputs self sent
           = (None, self\<lparr>buffer := [], total_in_buffer := 0\<rparr>, sent @ sends_of_buffer (buffer self))"
    by (rule stream_flush_sends [OF ok])
  have b: "buffered output_name (as_list rows) self
             = self\<lparr>buffer := (if output_name \<in> fst ` set (buffer self)
                        then map (\<lambda>(name, rs). if name = output_name then (name, rs @ as_list rows)
                                                else (name, rs)) (buffer self)
                        else buffer self @ [(output_name, as_list rows)]),
                    total_in_buffer := total_in_buffer self + int (length (as_list rows))\<rparr>"
    by (simp add: buffered_def buffer_extend_explicit [OF assms])
  have l: "buffer_len (buffer (buffered output_name (as_list rows) self)) output_name
             = int (length (buffered_rows output_name (buffer self) @ as_list rows))"
    by (simp add: buffered_def buffer_len_extend)
  show "let old = buffered_rows output_name (buffer self);
            added = as_list rows;
            b' = (if output_name \<in> fst ` set (buffer self)
                  then map (\<lambda>(name, rs). if name = output_name then (name, rs @ added)
                                          else (name, rs)) (buffer self)
                  else buffer self @ [(output_name, added)])
        in stream_add outputs output_name rows self sent
             = (if int (length (old @ added)) \<ge> per_output_max_rows self
                   \<or> total_in_buffer self + int (length added) \<ge> total_buffer_max_rows self
                then (None, self\<lparr>buffer := [], total_in_buffer := 0\<rparr>,
                      sent @ sends_of_buffer b')
                else (None, self\<lparr>buffer := b',
                                 total_in_buffer := total_in_buffer self + int (length added)\<rparr>,
                      sent))"
    unfolding Let_def stream_add_result [OF ok] l
    by (simp add: b)
  obtain raised self1 sent1 where run: "run_body outputs body (init_buffer self) sent = (raised, self1, sent1)"
    by (cases "run_body outputs body (init_buffer self) sent")
  have "distinct (map fst (buffer (init_buffer self)))" by (simp add: init_buffer_def)
  from run_body_distinct [OF ok this run] have d: "distinct (map fst (buffer self1))" .
  have "with_stream outputs self body sent
          = (raised, self1\<lparr>buffer := [], total_in_buffer := 0\<rparr>, sent1 @ sends_of_buffer (buffer self1))"
    by (simp add: with_stream_def run stream_flush_sends [OF ok])
  with run distinct_sends_of_buffer [OF d]
  show "\<exists>self1 sent1.
             run_body outputs body (init_buffer self) sent = (fst (run_body outputs body (init_buffer self) sent), self1, sent1)
           \<and> distinct (map fst (sends_of_buffer (buffer self1)))
           \<and> with_stream outputs self body sent
               = (fst (run_body outputs body (init_buffer self) sent),
                  self1\<lparr>buffer := [], total_in_buffer := 0\<rparr>,
                  sent1 @ sends_of_buffer (buffer self1))"
    by simp
  show "rows_to k (snd (snd (with_stream outputs self body sent))) = rows_to k sent @ rows_added k body" for k
    by (rule with_stream_conserves [OF ok])
qed

lemmas stream_defs =
  stream_add_def stream_flush_def init_buffer_def buffered_def buffer_extend_def buffer_len_def
  as_list_def send_def with_stream_def sends_of_buffer_def BufferedOutputStream_def Let_def
  buffered_rows_def rows_to_def

theorem buffered_stream_flushes_witness:
  "stream_add (\<lambda>k rs. None) ''premiums'' (Rows [3 :: nat])
      \<lparr>per_output_max_rows = 3, total_buffer_max_rows = 5000,
       buffer = [(''premiums'', [1]), (''losses'', [2])], total_in_buffer = 2\<rparr> []
     = (None,
        \<lparr>per_output_max_rows = 3, total_buffer_max_rows = 5000,
         buffer = [(''premiums'', [1, 3]), (''losses'', [2])], total_in_buffer = 3\<rparr>, [])
   \<and> stream_add (\<lambda>k rs. None) ''premiums'' (Rows [3, 4 :: nat])
      \<lparr>per_output_max_rows = 3, total_buffer_max_rows = 5000,
       buffer = [(''premiums'', [1]), (''losses'', [2])], total_in_buffer = 2\<rparr> []
     = (None,
        \<lparr>per_output_max_rows = 3, total_buffer_max_rows = 5000, buffer = [], total_in_buffer = 0\<rparr>,
        [(''premiums'', Rows [1, 3, 4]), (''losses'', Rows [2])])
   \<and> with_stream (\<lambda>k rs. None) (BufferedOutputStream 3 5000)
        [Add ''premiums'' (Row (1 :: nat)), Add ''losses'' (Row 2), Add ''premiums'' (Rows [3, 4]),
         Add ''nlr'' (Row 5), Raise (KeyError ''zip''), Add ''nlr'' (Row 6)] []
     = (Some (KeyError ''zip''),
        \<lparr>per_output_max_rows = 3, total_buffer_max_rows = 5000, buffer = [], total_in_buffer = 0\<rparr>,
        [(''premiums'', Rows [1, 3, 4]), (''losses'', Rows [2]), (''nlr'', Rows [5])])
   \<and> with_stream (\<lambda>k rs. None) (BufferedOutputStream 500 5000) ([] :: nat stmt list) []
     = (None, BufferedOutputStream 500 5000, [])
   \<and> stream_flush (\<lambda>k rs. if k = ''losses'' then Some (Exception ''sink down'') else None)
      \<lparr>per_output_max_rows = 3, total_buffer_max_rows = 5000,
       buffer = [(''premiums'', [1 :: nat]), (''losses'', [2]), (''nlr'', [3])], total_in_buffer = 3\<rparr> []
     = (Some (Exception ''sink down''),
        \<lparr>per_output_max_rows = 3, total_buffer_max_rows = 5000,
         buffer = [(''premiums'', [1]), (''losses'', [2]), (''nlr'', [3])], total_in_buffer = 3\<rparr>,
        [(''premiums'', Rows [1]), (''losses'', Rows [2])])"
  using buffered_stream_flushes [of
          "\<lparr>per_output_max_rows = 3, total_buffer_max_rows = 5000,
            buffer = [(''premiums'', [1 :: nat]), (''losses'', [2])], total_in_buffer = 2\<rparr>"
          "\<lambda>k rs. None" "[]" "''premiums''" "Rows [3]" "[]"]
        buffered_stream_flushes [of
          "\<lparr>per_output_max_rows = 3, total_buffer_max_rows = 5000,
            buffer = [(''premiums'', [1 :: nat]), (''losses'', [2]), (''nlr'', [3])], total_in_buffer = 3\<rparr>"
          "\<lambda>k rs. if k = ''losses'' then Some (Exception ''sink down'') else None"
          "[]" "''premiums''" "Rows []" "[]"]
  by (simp add: stream_defs)


section \<open>The rows of losses and loss ratios\<close>

text \<open>The geo-type codes of the four keys of the dictionaries.\<close>

lemma str_to_int_keys:
  "str_to_int ''total'' = 4" "str_to_int ''state'' = 1" "str_to_int ''county'' = 2" "str_to_int ''zip'' = 3"
  by (simp_all add: str_to_int_def strip_def lower_def lower_char_def is_space_def GEO_TYPE_MAPPINGS_def
        GEO_TYPE_TOTAL_VALUE_def GEO_TYPE_STATE_VALUE_def GEO_TYPE_COUNTY_VALUE_def
        GEO_TYPE_ZIP_VALUE_def GEO_TYPE_UNKNOWN_def)

text \<open>
  C6. Under schema version 2, which is also the default, the body of the second \<open>with\<close>
  block raises \<open>UnboundLocalError\<close> for \<open>nlr_value\<close> in its first iteration, the one for
  the key \<open>total\<close>: whatever the dictionaries hold, the body's only statement on the stream
  before that is the \<open>add\<close> of the total loss row (when the total loss is not 0). The
  block then leaves with that exception, unless the flush at its exit raises first.
\<close>

theorem nlr_value_unbound:
  "schema_version None = GEO_TYPE_ROW_OUTPUT_SCHEMA_VERSION
   \<and> fst (loss_body round4 GEO_TYPE_ROW_OUTPUT_SCHEMA_VERSION runtime_timestamp sim_id loss_dict premium_dict)
       = Some (UnboundLocalError ''nlr_value'')
   \<and> loss_statements
        (loss_body round4 GEO_TYPE_ROW_OUTPUT_SCHEMA_VERSION runtime_timestamp sim_id loss_dict premium_dict)
       = (if d_total loss_dict \<noteq> 0
          then [Add OUTPUT_LOSSES
                  (Row (build_geo_type_row runtime_timestamp sim_id ''total'' ''total''
                          (IntV (d_total loss_dict))))]
          else [])
         @ [Raise (UnboundLocalError ''nlr_value'')]
   \<and> fst (write_losses_and_nlr outputs round4 GEO_TYPE_ROW_OUTPUT_SCHEMA_VERSION runtime_timestamp
             sim_id loss_dict premium_dict sent)
       = (case (if d_total loss_dict \<noteq> 0
                then outputs OUTPUT_LOSSES
                       (Rows [build_geo_type_row runtime_timestamp sim_id ''total'' ''total''
                                (IntV (d_total loss_dict))])
                else None) of
            Some e \<Rightarrow> Some e
          | None \<Rightarrow> Some (UnboundLocalError ''nlr_value''))"
proof (intro conjI)
  show "schema_version None = GEO_TYPE_ROW_OUTPUT_SCHEMA_VERSION"
    by (simp add: schema_version_def DEFAULT_OUTPUT_SCHEMA_VERSION_def)
  have body: "loss_body round4 GEO_TYPE_ROW_OUTPUT_SCHEMA_VERSION runtime_timestamp sim_id loss_dict premium_dict
      = (Some (UnboundLocalError ''nlr_value''),
         \<lparr>ops = (if d_total loss_dict \<noteq> 0
                 then [Add OUTPUT_LOSSES
                         (Row (build_geo_type_row runtime_timestamp sim_id ''total'' ''total''
                                 (IntV (d_total loss_dict))))]
                 else []),
          first_row = [(''SimId'', IntV sim_id), (''total'', IntV (d_total loss_dict))],
          second_row = [(''SimId'', IntV sim_id),
                        (''total'', generate_loss_ratio round4 (d_total premium_dict) (d_total loss_dict))],
          nlr_value = None\<rparr>)"
    by (simp add: loss_body_def loss_total_def add_loss_row_def Let_def)
  show "fst (loss_body round4 GEO_TYPE_ROW_OUTPUT_SCHEMA_VERSION runtime_timestamp sim_id loss_dict premium_dict)
       = Some (UnboundLocalError ''nlr_value'')"
    by (simp add: body)
  show stmts: "loss_statements
        (loss_body round4 GEO_TYPE_ROW_OUTPUT_SCHEMA_VERSION runtime_timestamp sim_id loss_dict premium_dict)
       = (if d_total loss_dict \<noteq> 0
          then [Add OUTPUT_LOSSES
                  (Row (build_geo_type_row runtime_timestamp sim_id ''total'' ''total''
                          (IntV (d_total loss_dict))))]
          else [])
         @ [Raise (UnboundLocalError ''nlr_value'')]"
    by (simp add: body loss_statements_def)
  show "fst (write_losses_and_nlr outputs round4 GEO_TYPE_ROW_OUTPUT_SCHEMA_VERSION runtime_timestamp
             sim_id loss_dict premium_dict sent)
       = (case (if d_total loss_dict \<noteq> 0
                then outputs OUTPUT_LOSSES
                       (Rows [build_geo_type_row runtime_timestamp sim_id ''total'' ''total''
                                (IntV (d_total loss_dict))])
                else None) of
            Some e \<Rightarrow> Some e
          | None \<Rightarrow> Some (UnboundLocalError ''nlr_value''))"
    unfolding write_losses_and_nlr_def Let_def stmts
    by (cases "outputs OUTPUT_LOSSES
                       (Rows [build_geo_type_row runtime_timestamp sim_id ''total'' ''total''
                                (IntV (d_total loss_dict))])")
       (simp_all add: with_stream_def stream_add_def stream_flush_def init_buffer_def buffered_def
          buffer_extend_def buffer_len_def as_list_def send_def BufferedOutputStream_def Let_def
          DEFAULT_PER_OUTPUT_MAX_ROWS_def DEFAULT_TOTAL_BUFFER_MAX_ROWS_def)
qed


section \<open>The total rows of exposures and premiums\<close>

text \<open>
  What a body adds for an output does not change when the body goes on to raise, and a
  row of one of the three levels is not a total-level row.
\<close>

lemma rows_added_Raise: "rows_added k (xs @ [Raise e]) = rows_added k xs"
  by (induction k xs rule: rows_added.induct) simp_all

lemma rows_added_not_total:
  "\<not> total_row r \<Longrightarrow>
   filter total_row (rows_added k (xs @ [Add name (Row r)])) = filter total_row (rows_added k xs)"
  by (induction k xs rule: rows_added.induct) (simp_all add: as_list_def)

lemma add_row_not_total:
  "str_to_int geo_type \<noteq> GEO_TYPE_TOTAL_VALUE \<Longrightarrow>
   filter total_row
     (rows_added k
        (ops (add_row output_name (build_geo_type_row runtime_timestamp sim_id geo_type geography v) st)))
     = filter total_row (rows_added k (ops st))"
  by (simp add: add_row_def rows_added_not_total total_row_def build_geo_type_row_def)

lemma exposure_geographies_total_rows:
  "str_to_int geo_type \<noteq> GEO_TYPE_TOTAL_VALUE \<Longrightarrow>
   exposure_geographies version runtime_timestamp sim_id geo_type premium_dict geographies st = (raised, st') \<Longrightarrow>
   filter total_row (rows_added k (ops st')) = filter total_row (rows_added k (ops st))"
proof (induction geographies arbitrary: st)
  case Nil
  then show ?case by simp
next
  case (Cons g geographies)
  obtain geography total_value where g: "g = (geography, total_value)" by (cases g)
  show ?case
  proof (cases "getitem (levels premium_dict) geo_type")
    case (Inl e)
    with Cons.prems g show ?thesis by (simp add: Let_def)
  next
    case (Inr premium_level)
    show ?thesis
    proof (cases "getitem premium_level geography")
      case (Inl e)
      with Cons.prems g Inr show ?thesis by (simp add: Let_def)
    next
      case inner: (Inr premium_total)
      from Cons.prems(2) g Inr inner obtain st3 where
        run: "exposure_geographies version runtime_timestamp sim_id geo_type premium_dict geographies st3
                = (raised, st')"
        and st3: "filter total_row (rows_added k (ops st3)) = filter total_row (rows_added k (ops st))"
        by (simp add: Let_def add_row_not_total [OF Cons.prems(1)] split: if_splits)
      from Cons.IH [OF Cons.prems(1) run] st3 show ?thesis by simp
    qed
  qed
qed

lemma exposure_levels_total_rows:
  "\<forall>geo_type \<in> fst ` set lv. str_to_int geo_type \<noteq> GEO_TYPE_TOTAL_VALUE \<Longrightarrow>
   exposure_levels version runtime_timestamp sim_id premium_dict lv st = (raised, st') \<Longrightarrow>
   filter total_row (rows_added k (ops st')) = filter total_row (rows_added k (ops st))"
proof (induction lv arbitrary: st)
  case Nil
  then show ?case by simp
next
  case (Cons l lv)
  obtain geo_type v where l: "l = (geo_type, v)" by (cases l)
  obtain r1 st1 where inner:
    "exposure_geographies version runtime_timestamp sim_id geo_type premium_dict v st = (r1, st1)"
    by (cases "exposure_geographies version runtime_timestamp sim_id geo_type premium_dict v st")
  from Cons.prems(1) l have nt: "str_to_int geo_type \<noteq> GEO_TYPE_TOTAL_VALUE" by simp
  from exposure_geographies_total_rows [OF nt inner]
  have 1: "filter total_row (rows_added k (ops st1)) = filter total_row (rows_added k (ops st))" .
  show ?case
  proof (cases r1)
    case None
    with Cons.prems(2) l inner
    have "exposure_levels version runtime_timestamp sim_id premium_dict lv st1 = (raised, st')" by simp
    from Cons.IH [OF _ this] Cons.prems(1) 1 show ?thesis by simp
  next
    case (Some e)
    with Cons.prems(2) l inner 1 show ?thesis by simp
  qed
qed

text \<open>
  The total-level rows that the body of the first \<open>with\<close> block adds under schema version
  2: two for the output \<open>exposures\<close>, both with the exposure total, when that total is not
  0, and none for any other output.
\<close>

lemma exposure_body_total_rows:
  "filter total_row
     (rows_added k (statements (exposure_body GEO_TYPE_ROW_OUTPUT_SCHEMA_VERSION runtime_timestamp sim_id
                                  exposure_dict premium_dict)))
   = (if k = OUTPUT_EXPOSURES \<and> d_total exposure_dict \<noteq> 0
      then replicate 2 (build_geo_type_row runtime_timestamp sim_id ''total'' ''total''
                          (IntV (d_total exposure_dict)))
      else [])"
proof -
  define st0 where "st0 = exposure_total GEO_TYPE_ROW_OUTPUT_SCHEMA_VERSION runtime_timestamp sim_id
          (d_total exposure_dict)
          \<lparr>ops = [], first_row = [(''sim_id'', IntV sim_id)], second_row = [(''sim_id'', IntV sim_id)]\<rparr>"
  obtain raised st' where run:
    "exposure_levels GEO_TYPE_ROW_OUTPUT_SCHEMA_VERSION runtime_timestamp sim_id premium_dict
       (levels exposure_dict) st0 = (raised, st')"
    by (cases "exposure_levels GEO_TYPE_ROW_OUTPUT_SCHEMA_VERSION runtime_timestamp sim_id premium_dict
       (levels exposure_dict) st0")
  have keys: "\<forall>geo_type \<in> fst ` set (levels exposure_dict). str_to_int geo_type \<noteq> GEO_TYPE_TOTAL_VALUE"
    by (simp add: levels_def str_to_int_keys GEO_TYPE_TOTAL_VALUE_def)
  from exposure_levels_total_rows [OF keys run]
  have same: "filter total_row (rows_added k (ops st')) = filter total_row (rows_added k (ops st0))" .
  have start: "filter total_row (rows_added k (ops st0)) =
     (if k = OUTPUT_EXPOSURES \<and> d_total exposure_dict \<noteq> 0
      then replicate 2 (build_geo_type_row runtime_timestamp sim_id ''total'' ''total''
                          (IntV (d_total exposure_dict)))
      else [])"
    by (simp add: st0_def exposure_total_def add_row_def Let_def total_row_def as_list_def
          build_geo_type_row_def str_to_int_keys GEO_TYPE_TOTAL_VALUE_def eval_nat_numeral)
  have "filter total_row
     (rows_added k (statements (exposure_body GEO_TYPE_ROW_OUTPUT_SCHEMA_VERSION runtime_timestamp sim_id
                    exposure_dict premium_dict))) = filter total_row (rows_added k (ops st'))"
    using run by (cases raised) (simp_all add: statements_def exposure_body_def st0_def rows_added_Raise)
  with same start show ?thesis by simp
qed

text \<open>
  With a fanout whose \<open>send\<close> returns, these are the total-level rows sent by
  \<open>write_exposures_and_premiums\<close>, whether or not the body raises.
\<close>

lemma write_exposures_total_rows:
  assumes "\<forall>k rs. outputs k rs = None"
  shows "\<exists>raised sent'.
           write_exposures_and_premiums outputs GEO_TYPE_ROW_OUTPUT_SCHEMA_VERSION runtime_timestamp sim_id
             exposure_dict premium_dict sent = (raised, sent')
         \<and> (\<forall>k. filter total_row (rows_to k sent')
                = filter total_row (rows_to k sent)
                  @ (if k = OUTPUT_EXPOSURES \<and> d_total exposure_dict \<noteq> 0
                     then replicate 2 (build_geo_type_row runtime_timestamp sim_id ''total'' ''total''
                                         (IntV (d_total exposure_dict)))
                     else []))"
proof -
  define body where "body = statements (exposure_body GEO_TYPE_ROW_OUTPUT_SCHEMA_VERSION
                       runtime_timestamp sim_id exposure_dict premium_dict)"
  obtain raised self' sent' where w:
    "with_stream outputs (BufferedOutputStream DEFAULT_PER_OUTPUT_MAX_ROWS DEFAULT_TOTAL_BUFFER_MAX_ROWS)
       body sent = (raised, self', sent')"
    by (cases "with_stream outputs (BufferedOutputStream DEFAULT_PER_OUTPUT_MAX_ROWS DEFAULT_TOTAL_BUFFER_MAX_ROWS)
       body sent")
  from with_stream_conserves [OF assms, of _ "BufferedOutputStream DEFAULT_PER_OUTPUT_MAX_ROWS DEFAULT_TOTAL_BUFFER_MAX_ROWS" body sent] w
  have rows: "rows_to k sent' = rows_to k sent @ rows_added k body" for k by simp
  have "write_exposures_and_premiums outputs GEO_TYPE_ROW_OUTPUT_SCHEMA_VERSION runtime_timestamp sim_id
             exposure_dict premium_dict sent = (raised, sent')"
    using w by (cases raised)
      (simp_all add: write_exposures_and_premiums_def Let_def body_def send_flat_rows_def
         GEO_TYPE_ROW_OUTPUT_SCHEMA_VERSION_def FLAT_ROW_OUTPUT_SCHEMA_VERSION_def)
  moreover have "filter total_row (rows_to k sent')
                = filter total_row (rows_to k sent)
                  @ (if k = OUTPUT_EXPOSURES \<and> d_total exposure_dict \<noteq> 0
                     then replicate 2 (build_geo_type_row runtime_timestamp sim_id ''total'' ''total''
                                         (IntV (d_total exposure_dict)))
                     else [])" for k
    using exposure_body_total_rows [of k runtime_timestamp sim_id exposure_dict premium_dict]
    by (simp add: rows body_def)
  ultimately show ?thesis by blast
qed


text \<open>
  The second \<open>with\<close> block under schema version 2 sends at most the total loss row, for
  the output \<open>losses\<close>, and leaves with \<open>UnboundLocalError\<close>.
\<close>

lemma loss_body_unbound:
  "loss_body round4 GEO_TYPE_ROW_OUTPUT_SCHEMA_VERSION runtime_timestamp sim_id loss_dict premium_dict
      = (Some (UnboundLocalError ''nlr_value''),
         \<lparr>ops = (if d_total loss_dict \<noteq> 0
                 then [Add OUTPUT_LOSSES
                         (Row (build_geo_type_row runtime_timestamp sim_id ''total'' ''total''
                                 (IntV (d_total loss_dict))))]
                 else []),
          first_row = [(''SimId'', IntV sim_id), (''total'', IntV (d_total loss_dict))],
          second_row = [(''SimId'', IntV sim_id),
                        (''total'', generate_loss_ratio round4 (d_total premium_dict) (d_total loss_dict))],
          nlr_value = None\<rparr>)"
  by (simp add: loss_body_def loss_total_def add_loss_row_def Let_def)

lemma write_losses_raises:
  assumes "\<forall>k rs. outputs k rs = None"
  shows "write_losses_and_nlr outputs round4 GEO_TYPE_ROW_OUTPUT_SCHEMA_VERSION runtime_timestamp sim_id
           loss_dict premium_dict sent
         = (Some (UnboundLocalError ''nlr_value''),
            sent @ (if d_total loss_dict \<noteq> 0
                    then [(OUTPUT_LOSSES,
                           Rows [build_geo_type_row runtime_timestamp sim_id ''total'' ''total''
                                   (IntV (d_total loss_dict))])]
                    else []))"
  unfolding write_losses_and_nlr_def Let_def loss_body_unbound loss_statements_def
  by (simp add: assms with_stream_def stream_add_def stream_flush_def init_buffer_def buffered_def
        buffer_extend_def buffer_len_def as_list_def send_def BufferedOutputStream_def Let_def
        DEFAULT_PER_OUTPUT_MAX_ROWS_def DEFAULT_TOTAL_BUFFER_MAX_ROWS_def)

lemma write_losses_other_outputs:
  assumes "\<forall>k rs. outputs k rs = None"
  shows "\<exists>sent'. write_losses_and_nlr outputs round4 GEO_TYPE_ROW_OUTPUT_SCHEMA_VERSION runtime_timestamp
                    sim_id loss_dict premium_dict sent
                  = (Some (UnboundLocalError ''nlr_value''), sent')
               \<and> rows_to OUTPUT_EXPOSURES sent' = rows_to OUTPUT_EXPOSURES sent
               \<and> rows_to OUTPUT_PREMIUMS sent' = rows_to OUTPUT_PREMIUMS sent"
  unfolding write_losses_raises [OF assms]
  by (simp add: rows_to_def OUTPUT_LOSSES_def OUTPUT_EXPOSURES_def OUTPUT_PREMIUMS_def)

text \<open>
  One run of the body of \<open>run_losses\<close> therefore ends in an exception, after it has sent
  its total rows.
\<close>

lemma run_losses_body_total_rows:
  assumes v2: "schema_version output_schema_version = GEO_TYPE_ROW_OUTPUT_SCHEMA_VERSION"
      and ok: "\<forall>k rs. env_outputs env k rs = None"
      and storms: "generate_storms (in_limit inp) 0 [] (in_candidates inp) \<noteq> None"
  shows "\<exists>e sent'.
           run_losses_body env output_schema_version runtime_timestamp sim_id inp sent = Some (Some e, sent')
         \<and> filter total_row (rows_to OUTPUT_EXPOSURES sent')
             = filter total_row (rows_to OUTPUT_EXPOSURES sent) @ total_rows_of_run env runtime_timestamp sim_id inp
         \<and> filter total_row (rows_to OUTPUT_PREMIUMS sent') = filter total_row (rows_to OUTPUT_PREMIUMS sent)"
proof (cases "sampled env inp")
  case (Inl e)
  then show ?thesis by (simp add: run_losses_body_def total_rows_of_run_def)
next
  case (Inr s)
  from write_exposures_total_rows [OF ok, of runtime_timestamp "int sim_id" "exposure_dictionary s"
         "premium_dictionary s" sent]
  obtain raised sent1 where
    w: "write_exposures_and_premiums (env_outputs env) GEO_TYPE_ROW_OUTPUT_SCHEMA_VERSION runtime_timestamp
          (int sim_id) (exposure_dictionary s) (premium_dictionary s) sent = (raised, sent1)"
    and rows: "\<And>k. filter total_row (rows_to k sent1)
                = filter total_row (rows_to k sent)
                  @ (if k = OUTPUT_EXPOSURES \<and> d_total (exposure_dictionary s) \<noteq> 0
                     then replicate 2 (build_geo_type_row runtime_timestamp (int sim_id) ''total'' ''total''
                                         (IntV (d_total (exposure_dictionary s))))
                     else [])"
    by blast
  have exposures: "filter total_row (rows_to OUTPUT_EXPOSURES sent1)
      = filter total_row (rows_to OUTPUT_EXPOSURES sent) @ total_rows_of_run env runtime_timestamp sim_id inp"
    using rows [of OUTPUT_EXPOSURES] Inr by (simp add: total_rows_of_run_def)
  have premiums: "filter total_row (rows_to OUTPUT_PREMIUMS sent1) = filter total_row (rows_to OUTPUT_PREMIUMS sent)"
    using rows [of OUTPUT_PREMIUMS] by (simp add: OUTPUT_PREMIUMS_def OUTPUT_EXPOSURES_def)
  show ?thesis
  proof (cases raised)
    case (Some e)
    with Inr w v2 exposures premiums show ?thesis by (simp add: run_losses_body_def)
  next
    case None
    from storms obtain kept where kept: "generate_storms (in_limit inp) 0 [] (in_candidates inp) = Some kept"
      by auto
    show ?thesis
    proof (cases "storm_impact (env_inside env) (env_has_coordinates env) (exposures s)
                    (loss_dictionary env) kept")
      case (Inl e)
      with Inr w v2 None kept exposures premiums show ?thesis by (simp add: run_losses_body_def)
    next
      case inner: (Inr loss_dict)
      from write_losses_other_outputs [OF ok, of "env_round4 env" runtime_timestamp
             "int sim_id" loss_dict "premium_dictionary s" sent1]
      obtain sent2 where
        l: "write_losses_and_nlr (env_outputs env) (env_round4 env) GEO_TYPE_ROW_OUTPUT_SCHEMA_VERSION
              runtime_timestamp (int sim_id) loss_dict (premium_dictionary s) sent1
            = (Some (UnboundLocalError ''nlr_value''), sent2)"
        and "rows_to OUTPUT_EXPOSURES sent2 = rows_to OUTPUT_EXPOSURES sent1"
        and "rows_to OUTPUT_PREMIUMS sent2 = rows_to OUTPUT_PREMIUMS sent1"
        by blast
      with Inr w v2 None kept inner exposures premiums show ?thesis by (simp add: run_losses_body_def)
    qed
  qed
qed

text \<open>Three failing runs are all the decorator allows.\<close>

declare run_losses_sending.simps [simp del]

lemma run_losses_sending_three_attempts:
  assumes "body (Suc 0) sent = Some (Some e1, sent1)"
      and "body 2 sent1 = Some (Some e2, sent2)"
      and "body 3 sent2 = Some (Some e3, sent3)"
  shows "run_losses_sending body sim_id (Suc 0) sent = Some (Inl RetryError, sent3)"
proof -
  have 3: "run_losses_sending body sim_id 3 sent2 = Some (Inl RetryError, sent3)"
    by (subst run_losses_sending.simps) (simp add: assms SIMULATION_MAX_RETRIES_def)
  have 2: "run_losses_sending body sim_id 2 sent1 = run_losses_sending body sim_id 3 sent2"
    by (subst run_losses_sending.simps) (simp add: assms SIMULATION_MAX_RETRIES_def)
  have 1: "run_losses_sending body sim_id (Suc 0) sent = run_losses_sending body sim_id 2 sent1"
    by (subst run_losses_sending.simps) (simp add: assms SIMULATION_MAX_RETRIES_def eval_nat_numeral)
  from 1 2 3 show ?thesis by simp
qed

lemma simulation_total_rows:
  assumes v2: "schema_version output_schema_version = GEO_TYPE_ROW_OUTPUT_SCHEMA_VERSION"
      and ok: "\<forall>k rs. env_outputs env k rs = None"
      and storms: "\<forall>n \<in> {1, 2, 3}. generate_storms (in_limit (inputs n)) 0 [] (in_candidates (inputs n)) \<noteq> None"
  shows "\<exists>sent'.
           simulation env output_schema_version runtime_timestamp sim_id inputs sent
             = Some (Inl RetryError, sent')
         \<and> filter total_row (rows_to OUTPUT_EXPOSURES sent')
             = filter total_row (rows_to OUTPUT_EXPOSURES sent)
               @ total_rows_of_run env runtime_timestamp sim_id (inputs 1)
               @ total_rows_of_run env runtime_timestamp sim_id (inputs 2)
               @ total_rows_of_run env runtime_timestamp sim_id (inputs 3)
         \<and> filter total_row (rows_to OUTPUT_PREMIUMS sent') = filter total_row (rows_to OUTPUT_PREMIUMS sent)"
proof -
  let ?body = "\<lambda>n. run_losses_body env output_schema_version runtime_timestamp sim_id (inputs n)"
  from storms have s1: "generate_storms (in_limit (inputs (Suc 0))) 0 [] (in_candidates (inputs (Suc 0))) \<noteq> None"
    and s2: "generate_storms (in_limit (inputs 2)) 0 [] (in_candidates (inputs 2)) \<noteq> None"
    and s3: "generate_storms (in_limit (inputs 3)) 0 [] (in_candidates (inputs 3)) \<noteq> None"
    by simp_all
  from run_losses_body_total_rows [OF v2 ok s1, of runtime_timestamp sim_id sent]
  obtain e1 sent1 where
    b1: "?body (Suc 0) sent = Some (Some e1, sent1)"
    and x1: "filter total_row (rows_to OUTPUT_EXPOSURES sent1)
             = filter total_row (rows_to OUTPUT_EXPOSURES sent)
               @ total_rows_of_run env runtime_timestamp sim_id (inputs (Suc 0))"
    and p1: "filter total_row (rows_to OUTPUT_PREMIUMS sent1) = filter total_row (rows_to OUTPUT_PREMIUMS sent)"
    by blast
  from run_losses_body_total_rows [OF v2 ok s2, of runtime_timestamp sim_id sent1]
  obtain e2 sent2 where
    b2: "?body 2 sent1 = Some (Some e2, sent2)"
    and x2: "filter total_row (rows_to OUTPUT_EXPOSURES sent2)
             = filter total_row (rows_to OUTPUT_EXPOSURES sent1)
               @ total_rows_of_run env runtime_timestamp sim_id (inputs 2)"
    and p2: "filter total_row (rows_to OUTPUT_PREMIUMS sent2) = filter total_row (rows_to OUTPUT_PREMIUMS sent1)"
    by blast
  from run_losses_body_total_rows [OF v2 ok s3, of runtime_timestamp sim_id sent2]
  obtain e3 sent3 where
    b3: "?body 3 sent2 = Some (Some e3, sent3)"
    and x3: "filter total_row (rows_to OUTPUT_EXPOSURES sent3)
             = filter total_row (rows_to OUTPUT_EXPOSURES sent2)
               @ total_rows_of_run env runtime_timestamp sim_id (inputs 3)"
    and p3: "filter total_row (rows_to OUTPUT_PREMIUMS sent3) = filter total_row (rows_to OUTPUT_PREMIUMS sent2)"
    by blast
  have "simulation env output_schema_version runtime_timestamp sim_id inputs sent
          = Some (Inl RetryError, sent3)"
    using run_losses_sending_three_attempts [of ?body sent e1 sent1 e2 sent2 e3 sent3 sim_id] b1 b2 b3
    by (simp add: simulation_def)
  with x1 x2 x3 p1 p2 p3 show ?thesis by simp
qed


text \<open>The example runs: their storm loops return, and what they sample.\<close>

lemma example_storms: "generate_storms 950 0 [] (replicate 951 (Some ())) \<noteq> None"
proof -
  have "(950::int) + 1 - 0 \<le> int (length (filter (\<lambda>c. c \<noteq> None) (replicate 951 (Some ()))))"
    by simp
  from generate_storms_enough [OF this, of "[]"] show ?thesis by auto
qed

lemma example_total_rows:
  "total_rows_of_run example_surroundings runtime_timestamp sim_id example_drawn
     = replicate 2 (build_geo_type_row runtime_timestamp (int sim_id) ''total'' ''total'' (IntV 100000))"
  "total_rows_of_run example_surroundings runtime_timestamp sim_id example_nothing_drawn = []"
  by (simp_all add: total_rows_of_run_def sampled_def loss_dictionary_def example_surroundings_def
        example_drawn_def example_nothing_drawn_def example_property_def example_zip_to_prem_def
        sampling_defs)

text \<open>
  C10, as stated, has the exposures output receive two total rows in every trial. Under
  the default schema version 2 and with a fanout whose \<open>send\<close> returns, a trial whose three
  runs sample no property sends no total row at all, and a trial whose three runs sample
  one property each sends six total rows for the output \<open>exposures\<close>: every run fails
  after its first block has been flushed, and the decorator runs the body three times.
\<close>

theorem total_rows_counterexample:
  "(case simulation example_surroundings None 1700000000 7 (\<lambda>n. example_nothing_drawn) [] of
      Some (Inl RetryError, sent') \<Rightarrow> filter total_row (rows_to OUTPUT_EXPOSURES sent') = []
    | _ \<Rightarrow> False)
   \<and> (case simulation example_surroundings None 1700000000 7 (\<lambda>n. example_drawn) [] of
        Some (Inl RetryError, sent') \<Rightarrow>
          filter total_row (rows_to OUTPUT_EXPOSURES sent')
            = replicate 6 (build_geo_type_row 1700000000 7 ''total'' ''total'' (IntV 100000))
      | _ \<Rightarrow> False)"
proof -
  have v2: "schema_version None = GEO_TYPE_ROW_OUTPUT_SCHEMA_VERSION"
    by (simp add: schema_version_def DEFAULT_OUTPUT_SCHEMA_VERSION_def)
  have ok: "\<forall>k rs. env_outputs example_surroundings k rs = None"
    by (simp add: example_surroundings_def)
  have storms0: "\<forall>n \<in> {1, 2, 3::nat}.
      generate_storms (in_limit example_nothing_drawn) 0 [] (in_candidates example_nothing_drawn) \<noteq> None"
    using example_storms by (simp add: example_nothing_drawn_def)
  have storms6: "\<forall>n \<in> {1, 2, 3::nat}.
      generate_storms (in_limit example_drawn) 0 [] (in_candidates example_drawn) \<noteq> None"
    using example_storms by (simp add: example_drawn_def)
  from simulation_total_rows [OF v2 ok storms0, of 1700000000 7 "[]"]
  obtain sent0 where
    "simulation example_surroundings None 1700000000 7 (\<lambda>n. example_nothing_drawn) []
       = Some (Inl RetryError, sent0)"
    "filter total_row (rows_to OUTPUT_EXPOSURES sent0) = []"
    by (auto simp: example_total_rows rows_to_def)
  moreover
  from simulation_total_rows [OF v2 ok storms6, of 1700000000 7 "[]"]
  obtain sent6 where
    "simulation example_surroundings None 1700000000 7 (\<lambda>n. example_drawn) []
       = Some (Inl RetryError, sent6)"
    "filter total_row (rows_to OUTPUT_EXPOSURES sent6)
       = replicate 6 (build_geo_type_row 1700000000 7 ''total'' ''total'' (IntV 100000))"
    by (auto simp: example_total_rows rows_to_def eval_nat_numeral)
  ultimately show ?thesis by simp
qed

text \<open>
  C10, amended. The branch for \<open>total\<close> stores the exposure total in \<open>premium_row\<close> as
  well. Under schema version 2, with a fanout whose \<open>send\<close> returns and storm loops that
  return, each of the three runs of the body of \<open>run_losses\<close> ends in an exception after
  it has sent no total-level row for the output \<open>premiums\<close> and, for the output
  \<open>exposures\<close>, the rows of \<open>total_rows_of_run\<close>: two copies of the row of the exposure
  total when sampling returned a total other than 0, none otherwise. The simulation ends
  in \<open>RetryError\<close>, and by then the fanout has received the total rows of its three runs
  for \<open>exposures\<close>, up to six, and none for \<open>premiums\<close>.
\<close>

theorem total_rows_of_a_trial:
  assumes v2: "schema_version output_schema_version = GEO_TYPE_ROW_OUTPUT_SCHEMA_VERSION"
      and ok: "\<forall>k rs. env_outputs env k rs = None"
      and storms: "\<forall>n \<in> {1, 2, 3}. generate_storms (in_limit (inputs n)) 0 [] (in_candidates (inputs n)) \<noteq> None"
  shows "map_of (second_row (exposure_total version runtime_timestamp (int sim_id) (d_total exposure_dict) st))
           ''total'' = Some (IntV (d_total exposure_dict))
       \<and> (\<forall>n \<in> {1, 2, 3}. \<forall>before. \<exists>e after.
             run_losses_body env output_schema_version runtime_timestamp sim_id (inputs n) before
               = Some (Some e, after)
           \<and> filter total_row (rows_to OUTPUT_EXPOSURES after)
               = filter total_row (rows_to OUTPUT_EXPOSURES before)
                 @ total_rows_of_run env runtime_timestamp sim_id (inputs n)
           \<and> filter total_row (rows_to OUTPUT_PREMIUMS after)
               = filter total_row (rows_to OUTPUT_PREMIUMS before))
       \<and> (\<exists>sent'.
             simulation env output_schema_version runtime_timestamp sim_id inputs sent
               = Some (Inl RetryError, sent')
           \<and> filter total_row (rows_to OUTPUT_EXPOSURES sent')
               = filter total_row (rows_to OUTPUT_EXPOSURES sent)
                 @ total_rows_of_run env runtime_timestamp sim_id (inputs 1)
                 @ total_rows_of_run env runtime_timestamp sim_id (inputs 2)
                 @ total_rows_of_run env runtime_timestamp sim_id (inputs 3)
           \<and> filter total_row (rows_to OUTPUT_PREMIUMS sent')
               = filter total_row (rows_to OUTPUT_PREMIUMS sent))"
proof (intro conjI ballI allI)
  show "map_of (second_row (exposure_total version runtime_timestamp (int sim_id) (d_total exposure_dict) st))
           ''total'' = Some (IntV (d_total exposure_dict))"
    by (simp add: exposure_total_def add_row_def Let_def update_conv')
next
  fix n before
  assume "n \<in> {1, 2, 3::nat}"
  with storms have "generate_storms (in_limit (inputs n)) 0 [] (in_candidates (inputs n)) \<noteq> None"
    by blast
  from run_losses_body_total_rows [OF v2 ok this]
  show "\<exists>e after.
             run_losses_body env output_schema_version runtime_timestamp sim_id (inputs n) before
               = Some (Some e, after)
           \<and> filter total_row (rows_to OUTPUT_EXPOSURES after)
               = filter total_row (rows_to OUTPUT_EXPOSURES before)
                 @ total_rows_of_run env runtime_timestamp sim_id (inputs n)
           \<and> filter total_row (rows_to OUTPUT_PREMIUMS after)
               = filter total_row (rows_to OUTPUT_PREMIUMS before)" .
next
  show "\<exists>sent'.
             simulation env output_schema_version runtime_timestamp sim_id inputs sent
               = Some (Inl RetryError, sent')
           \<and> filter total_row (rows_to OUTPUT_EXPOSURES sent')
               = filter total_row (rows_to OUTPUT_EXPOSURES sent)
                 @ total_rows_of_run env runtime_timestamp sim_id (inputs 1)
                 @ total_rows_of_run env runtime_timestamp sim_id (inputs 2)
                 @ total_rows_of_run env runtime_timestamp sim_id (inputs 3)
           \<and> filter total_row (rows_to OUTPUT_PREMIUMS sent')
               = filter total_row (rows_to OUTPUT_PREMIUMS sent)"
    by (rule simulation_total_rows [OF v2 ok storms])
qed

theorem total_rows_of_a_trial_witness:
  "schema_version None = GEO_TYPE_ROW_OUTPUT_SCHEMA_VERSION
   \<and> (\<exists>e after.
        run_losses_body example_surroundings None 1700000000 7 example_drawn [] = Some (Some e, after)
      \<and> filter total_row (rows_to OUTPUT_EXPOSURES after)
          = replicate 2 (build_geo_type_row 1700000000 7 ''total'' ''total'' (IntV 100000))
      \<and> filter total_row (rows_to OUTPUT_PREMIUMS after) = [])
   \<and> (\<exists>sent'.
        simulation example_surroundings None 1700000000 7
          (\<lambda>n. if n = 2 then example_nothing_drawn else example_drawn) []
          = Some (Inl RetryError, sent')
      \<and> filter total_row (rows_to OUTPUT_EXPOSURES sent')
          = replicate 4 (build_geo_type_row 1700000000 7 ''total'' ''total'' (IntV 100000))
      \<and> filter total_row (rows_to OUTPUT_PREMIUMS sent') = [])"
proof -
  let ?inputs = "\<lambda>n::nat. if n = 2 then example_nothing_drawn else example_drawn"
  have v2: "schema_version None = GEO_TYPE_ROW_OUTPUT_SCHEMA_VERSION"
    by (simp add: schema_version_def DEFAULT_OUTPUT_SCHEMA_VERSION_def)
  have ok: "\<forall>k rs. env_outputs example_surroundings k rs = None"
    by (simp add: example_surroundings_def)
  have storms: "\<forall>n \<in> {1, 2, 3}.
      generate_storms (in_limit (?inputs n)) 0 [] (in_candidates (?inputs n)) \<noteq> None"
    using example_storms by (simp add: example_drawn_def example_nothing_drawn_def)
  from total_rows_of_a_trial [of None example_surroundings ?inputs, OF v2 ok storms,
         of _ 1700000000 7 _ _ "[]"]
  have attempt: "\<forall>n \<in> {1, 2, 3}. \<forall>before. \<exists>e after.
             run_losses_body example_surroundings None 1700000000 7 (?inputs n) before
               = Some (Some e, after)
           \<and> filter total_row (rows_to OUTPUT_EXPOSURES after)
               = filter total_row (rows_to OUTPUT_EXPOSURES before)
                 @ total_rows_of_run example_surroundings 1700000000 7 (?inputs n)
           \<and> filter total_row (rows_to OUTPUT_PREMIUMS after)
               = filter total_row (rows_to OUTPUT_PREMIUMS before)"
    and trial: "\<exists>sent'.
             simulation example_surroundings None 1700000000 7 ?inputs []
               = Some (Inl RetryError, sent')
           \<and> filter total_row (rows_to OUTPUT_EXPOSURES sent')
               = filter total_row (rows_to OUTPUT_EXPOSURES [])
                 @ total_rows_of_run example_surroundings 1700000000 7 (?inputs 1)
                 @ total_rows_of_run example_surroundings 1700000000 7 (?inputs 2)
                 @ total_rows_of_run example_surroundings 1700000000 7 (?inputs 3)
           \<and> filter total_row (rows_to OUTPUT_PREMIUMS sent')
               = filter total_row (rows_to OUTPUT_PREMIUMS [])"
    by blast+
  from attempt have "\<forall>before. \<exists>e after.
        run_losses_body example_surroundings None 1700000000 7 (?inputs 1) before = Some (Some e, after)
      \<and> filter total_row (rows_to OUTPUT_EXPOSURES after)
          = filter total_row (rows_to OUTPUT_EXPOSURES before)
            @ total_rows_of_run example_surroundings 1700000000 7 (?inputs 1)
      \<and> filter total_row (rows_to OUTPUT_PREMIUMS after)
          = filter total_row (rows_to OUTPUT_PREMIUMS before)"
    by blast
  from this [rule_format, of "[]"] have "\<exists>e after.
        run_losses_body example_surroundings None 1700000000 7 example_drawn [] = Some (Some e, after)
      \<and> filter total_row (rows_to OUTPUT_EXPOSURES after)
          = replicate 2 (build_geo_type_row 1700000000 7 ''total'' ''total'' (IntV 100000))
      \<and> filter total_row (rows_to OUTPUT_PREMIUMS after) = []"
    by (simp add: example_total_rows rows_to_def)
  moreover from trial have "\<exists>sent'.
        simulation example_surroundings None 1700000000 7 ?inputs [] = Some (Inl RetryError, sent')
      \<and> filter total_row (rows_to OUTPUT_EXPOSURES sent')
          = replicate 4 (build_geo_type_row 1700000000 7 ''total'' ''total'' (IntV 100000))
      \<and> filter total_row (rows_to OUTPUT_PREMIUMS sent') = []"
    by (simp add: example_total_rows rows_to_def eval_nat_numeral)
  ultimately show ?thesis using v2 by blast
qed

end
